(* ===== verification/Prelude.thy ===== *)
theory Prelude
  imports Complex_Main "HOL-Library.Word" "HOL-Library.Code_Target_Numeral"
begin

text \<open>
  Shared vocabulary of the development: the collections of rewrite rules the component
  theories add to, the facts about square roots of sums of squares that every distance
  test of the particle renderer needs, and generic list facts used by the frame and
  lifecycle proofs.
\<close>

named_theorems jsnum_eval "evaluation rules of the JavaScript number operations on finite operands"
named_theorems fx_simps "unfolding rules of the particle-field operations"

type_synonym ms = real \<comment> \<open>a timestamp or delay in milliseconds\<close>

subsection \<open>Distances\<close>

text \<open>\<open>Math.hypot\<close> of two finite numbers is the square root of the sum of squares; its
  comparison with a non-negative bound is a comparison of squares, which the kernel can
  decide on concrete coordinates.\<close>

lemma sqrt_sum_sq_nonneg [simp]: "0 \<le> sqrt (a\<^sup>2 + b\<^sup>2 :: real)"
  by simp

lemma sqrt_sum_sq_less_iff:
  assumes "0 \<le> r"
  shows "sqrt (a\<^sup>2 + b\<^sup>2) < r \<longleftrightarrow> a\<^sup>2 + b\<^sup>2 < (r::real)\<^sup>2"
proof -
  have "sqrt (a\<^sup>2 + b\<^sup>2) < r \<longleftrightarrow> sqrt (a\<^sup>2 + b\<^sup>2) < sqrt (r\<^sup>2)"
    using assms by simp
  also have "\<dots> \<longleftrightarrow> a\<^sup>2 + b\<^sup>2 < r\<^sup>2"
    by (rule real_sqrt_less_iff)
  finally show ?thesis .
qed

lemma sqrt_sum_sq_eq_0_iff [simp]: "sqrt (a\<^sup>2 + b\<^sup>2) = 0 \<longleftrightarrow> a = 0 \<and> (b::real) = 0"
  by (simp add: add_nonneg_eq_0_iff)

lemma abs_le_sqrt_sum_sq: "\<bar>a\<bar> \<le> sqrt (a\<^sup>2 + b\<^sup>2 :: real)"
  by (simp add: real_le_rsqrt)

lemma div_sqrt_sum_sq_bound:
  assumes "sqrt (a\<^sup>2 + b\<^sup>2) \<noteq> 0"
  shows "\<bar>a / sqrt (a\<^sup>2 + b\<^sup>2 :: real)\<bar> \<le> 1"
proof -
  have pos: "0 < sqrt (a\<^sup>2 + b\<^sup>2)"
    using assms sqrt_sum_sq_nonneg [of a b] by linarith
  then have "\<bar>a / sqrt (a\<^sup>2 + b\<^sup>2)\<bar> = \<bar>a\<bar> / sqrt (a\<^sup>2 + b\<^sup>2)"
    by (simp add: abs_div)
  also have "\<dots> \<le> 1"
    using pos abs_le_sqrt_sum_sq [of a b] by (simp add: divide_le_eq_1_pos)
  finally show ?thesis .
qed

lemma abs_mult_le_gain: "\<bar>u\<bar> \<le> 1 \<Longrightarrow> 0 \<le> g \<Longrightarrow> \<bar>u * g\<bar> \<le> (g::real)"
  by (simp add: abs_mult mult_left_le_one_le)

lemma clamp_int:
  assumes "lo \<in> \<int>" "hi \<in> \<int>"
  shows "max lo (min hi (of_int z)) \<in> (\<int> :: real set)"
  using assms by (simp add: max_def min_def)

subsection \<open>Lists\<close>

lemma maps_append_distrib: "List.maps f (xs @ ys) = List.maps f xs @ List.maps f ys"
  by (simp add: List.maps_eq)

lemma set_maps_iff: "x \<in> set (List.maps f xs) \<longleftrightarrow> (\<exists>y \<in> set xs. x \<in> set (f y))"
  by (simp add: List.maps_eq)

text \<open>\<open>list.map((item, index) => ...)\<close> is a map over \<open>enumerate 0\<close>; a callback that reads
  only the index, or only the item, is a map over the indices or over the items.\<close>

lemma map_enumerate_index: "map (\<lambda>(i, x). f i) (enumerate n xs) = map f [n..<n + length xs]"
  by (induction xs arbitrary: n) (simp_all add: upt_conv_Cons del: upt_Suc)

lemma map_enumerate_value: "map (\<lambda>(i, x). f x) (enumerate n xs) = map f xs"
  by (induction xs arbitrary: n) simp_all

end
