(* ===== verification/Js_Number.thy ===== *)
theory Js_Number
  imports Prelude
begin

text \<open>
  JavaScript numbers as the particle code uses them: IEEE-754 doubles, idealised to
  exact real arithmetic on finite values but keeping the two infinities and NaN, so that
  the value of \<open>0 / 0\<close>, of a comparison with NaN and of \<open>Math.hypot\<close> of an infinite
  argument are those of the language, not HOL's total division. The case order of each
  operation follows the IEEE operations (NaN first, then infinities, then the finite
  case). Rounding and the sign of zero are not modelled: there is one zero.
\<close>

datatype jsnum = Fin real | PInf | NInf | NaN

definition is_fin :: "jsnum \<Rightarrow> bool" where
  "is_fin v \<longleftrightarrow> (case v of Fin _ \<Rightarrow> True | _ \<Rightarrow> False)"

fun jval :: "jsnum \<Rightarrow> real" where
  "jval (Fin r) = r"
| "jval _ = 0"

fun jneg :: "jsnum \<Rightarrow> jsnum" where
  "jneg (Fin a) = Fin (- a)"
| "jneg PInf = NInf"
| "jneg NInf = PInf"
| "jneg NaN = NaN"

fun jadd :: "jsnum \<Rightarrow> jsnum \<Rightarrow> jsnum" where
  "jadd NaN _ = NaN"
| "jadd _ NaN = NaN"
| "jadd (Fin a) (Fin b) = Fin (a + b)"
| "jadd PInf NInf = NaN"
| "jadd NInf PInf = NaN"
| "jadd PInf _ = PInf"
| "jadd NInf _ = NInf"
| "jadd (Fin _) i = i"

definition jsub :: "jsnum \<Rightarrow> jsnum \<Rightarrow> jsnum" where
  "jsub a b = jadd a (jneg b)"

text \<open>An infinity times a finite non-zero value keeps or flips its sign; times zero it is NaN.\<close>

fun jscale_inf :: "real \<Rightarrow> jsnum \<Rightarrow> jsnum" where
  "jscale_inf a i = (if a = 0 then NaN else if 0 < a then i else jneg i)"

fun jmul :: "jsnum \<Rightarrow> jsnum \<Rightarrow> jsnum" where
  "jmul NaN _ = NaN"
| "jmul _ NaN = NaN"
| "jmul (Fin a) (Fin b) = Fin (a * b)"
| "jmul (Fin a) i = jscale_inf a i"
| "jmul i (Fin a) = jscale_inf a i"
| "jmul PInf PInf = PInf"
| "jmul NInf NInf = PInf"
| "jmul _ _ = NInf"

fun jdiv :: "jsnum \<Rightarrow> jsnum \<Rightarrow> jsnum" where
  "jdiv NaN _ = NaN"
| "jdiv _ NaN = NaN"
| "jdiv (Fin a) (Fin b) =
     (if b = 0 then (if a = 0 then NaN else if 0 < a then PInf else NInf) else Fin (a / b))"
| "jdiv (Fin _) _ = Fin 0"
| "jdiv i (Fin b) = (if b < 0 then jneg i else i)"
| "jdiv _ _ = NaN"

text \<open>The relational operators: every comparison with NaN is false.\<close>

fun jlt :: "jsnum \<Rightarrow> jsnum \<Rightarrow> bool" where
  "jlt NaN _ = False"
| "jlt _ NaN = False"
| "jlt (Fin a) (Fin b) = (a < b)"
| "jlt NInf b = (b \<noteq> NInf)"
| "jlt PInf _ = False"
| "jlt (Fin _) PInf = True"
| "jlt (Fin _) NInf = False"

definition jgt :: "jsnum \<Rightarrow> jsnum \<Rightarrow> bool" where
  "jgt a b = jlt b a"

text \<open>\<open>Math.hypot(a, b)\<close>: an infinite argument gives \<open>Infinity\<close> even beside NaN.\<close>

definition jhypot :: "jsnum \<Rightarrow> jsnum \<Rightarrow> jsnum" where
  "jhypot a b =
     (if a \<in> {PInf, NInf} \<or> b \<in> {PInf, NInf} then PInf
      else case (a, b) of (Fin x, Fin y) \<Rightarrow> Fin (sqrt (x\<^sup>2 + y\<^sup>2)) | _ \<Rightarrow> NaN)"

fun jsin :: "jsnum \<Rightarrow> jsnum" where
  "jsin (Fin a) = Fin (sin a)"
| "jsin _ = NaN"

fun jfloor :: "jsnum \<Rightarrow> jsnum" where
  "jfloor (Fin a) = Fin (of_int \<lfloor>a\<rfloor>)"
| "jfloor v = v"

text \<open>\<open>Math.max\<close> and \<open>Math.min\<close> of two arguments: NaN if either is NaN.\<close>

definition jmax :: "jsnum \<Rightarrow> jsnum \<Rightarrow> jsnum" where
  "jmax a b = (if a = NaN \<or> b = NaN then NaN else if jlt a b then b else a)"

definition jmin :: "jsnum \<Rightarrow> jsnum \<Rightarrow> jsnum" where
  "jmin a b = (if a = NaN \<or> b = NaN then NaN else if jlt b a then b else a)"

text \<open>Truthiness, as used by \<open>x || d\<close>: zero and NaN are falsy.\<close>

definition js_truthy :: "jsnum \<Rightarrow> bool" where
  "js_truthy v \<longleftrightarrow> v \<noteq> Fin 0 \<and> v \<noteq> NaN"

definition js_or :: "jsnum \<Rightarrow> jsnum \<Rightarrow> jsnum" where
  "js_or a b = (if js_truthy a then a else b)"

text \<open>The abstract operation ToLength, applied by \<open>Array.from({length: n})\<close>.\<close>

definition max_safe_length :: nat where
  "max_safe_length = 2 ^ 53 - 1"

fun js_to_length :: "jsnum \<Rightarrow> nat" where
  "js_to_length (Fin a) = (if a \<le> 0 then 0 else min (nat \<lfloor>a\<rfloor>) max_safe_length)"
| "js_to_length PInf = max_safe_length"
| "js_to_length _ = 0"

text \<open>The WebIDL conversion to \<open>unsigned long\<close>, applied when a number is assigned to
  \<open>canvas.width\<close>: non-finite values give 0, finite ones are truncated towards zero and
  taken modulo \<open>2^32\<close>.\<close>

fun js_to_uint32 :: "jsnum \<Rightarrow> 32 word" where
  "js_to_uint32 (Fin a) = word_of_int (if 0 \<le> a then \<lfloor>a\<rfloor> else - \<lfloor>- a\<rfloor>)"
| "js_to_uint32 _ = 0"

subsection \<open>Evaluation on finite operands\<close>

lemma jsub_Fin [simp, jsnum_eval]: "jsub (Fin a) (Fin b) = Fin (a - b)"
  by (simp add: jsub_def)

lemma jgt_Fin [simp, jsnum_eval]: "jgt (Fin a) (Fin b) \<longleftrightarrow> b < a"
  by (simp add: jgt_def)

lemma jhypot_Fin [simp, jsnum_eval]: "jhypot (Fin a) (Fin b) = Fin (sqrt (a\<^sup>2 + b\<^sup>2))"
  by (simp add: jhypot_def)

lemma jmax_Fin [simp, jsnum_eval]: "jmax (Fin a) (Fin b) = Fin (max a b)"
  by (simp add: jmax_def max_def)

lemma jmin_Fin [simp, jsnum_eval]: "jmin (Fin a) (Fin b) = Fin (min a b)"
  by (simp add: jmin_def min_def)

lemma jdiv_Fin_nz [simp, jsnum_eval]: "b \<noteq> 0 \<Longrightarrow> jdiv (Fin a) (Fin b) = Fin (a / b)"
  by simp

lemma is_fin_iff: "is_fin v \<longleftrightarrow> (\<exists>r. v = Fin r)"
  by (cases v) (simp_all add: is_fin_def)

lemma is_fin_simps [simp]:
  "is_fin (Fin r)" "\<not> is_fin NaN" "\<not> is_fin PInf" "\<not> is_fin NInf"
  by (simp_all add: is_fin_def)

subsection \<open>NaN is absorbing\<close>

lemma nan_absorbs [simp]:
  "jadd NaN b = NaN" "jadd a NaN = NaN" "jsub NaN b = NaN" "jsub a NaN = NaN"
  "jmul NaN b = NaN" "jmul a NaN = NaN" "jdiv NaN b = NaN" "jdiv a NaN = NaN"
  "\<not> jlt NaN b" "\<not> jlt a NaN" "\<not> jgt NaN b" "\<not> jgt a NaN"
  by (cases a; cases b; simp add: jsub_def jgt_def)+

lemma jhypot_NaN_Fin [simp]: "jhypot NaN NaN = NaN"
  by (simp add: jhypot_def)

lemma jdiv_zero_zero [simp]: "jdiv (Fin 0) (Fin 0) = NaN"
  by simp

subsection \<open>Conversions\<close>

lemma js_to_length_int:
  assumes "v \<in> \<int>" "0 \<le> v" "v \<le> real max_safe_length"
  shows "real (js_to_length (Fin v)) = v"
proof -
  obtain k where k: "v = of_int k" using assms(1) Ints_cases by blast
  then have "0 \<le> k" "k \<le> int max_safe_length" using assms(2,3) by simp_all
  then have "nat k \<le> max_safe_length" by (simp add: nat_le_iff)
  then show ?thesis using k \<open>0 \<le> k\<close> by (simp add: min_def)
qed

end
