(* ===== verification/Particle_Field.thy ===== *)
theory Particle_Field
  imports Js_Number
begin

text \<open>
  The animated particle background ("BackgroundFX"). The same effect is written five
  times in the sources (src/src/components/BackgroundFX.tsx, Hero.tsx, About.tsx,
  Skills.tsx, Projects.tsx), differing only in constants; this theory holds the one
  algorithm, parameterised by a record \<open>fx_config\<close> of those constants, and the
  theory Fx_Instances fixes the constants of each file. The closure variables of the
  effect (\<open>width\<close>, \<open>height\<close>, \<open>mouse\<close>, \<open>particles\<close>) are the record
  \<open>field_state\<close>; the canvas element's buffer size, style size and transform are the
  record \<open>canvas_state\<close>; the drawing calls of one frame are a list of \<open>draw\<close>
  commands. \<open>Math.random()\<close> is a stream \<open>rnd :: nat \<Rightarrow> real\<close> read from a position
  that the model threads through the calls.
\<close>

section \<open>Data\<close>

text \<open>\<open>type Particle = { x; y; vx; vy; r; seed }\<close>\<close>

record particle =
  p_x :: jsnum
  p_y :: jsnum
  p_vx :: jsnum
  p_vy :: jsnum
  p_r :: jsnum
  p_seed :: jsnum

datatype height_rule =
    InnerHeight      \<comment> \<open>\<open>height = window.innerHeight\<close>\<close>
  | ClampedHeight    \<comment> \<open>\<open>height = Math.max(window.innerHeight * 0.8, 600)\<close>\<close>

datatype fill_mode =
    WhiteFill             \<comment> \<open>\<open>rgba(255,255,255,alpha)\<close>\<close>
  | CyanTealFill real     \<comment> \<open>colour mixed by \<open>Math.sin(t / period + seed * 2)\<close>\<close>

text \<open>The constants in which the five copies of the effect differ.\<close>

record fx_config =
  cfg_height :: height_rule
  cfg_min_count :: real
  cfg_max_count :: real
  cfg_density :: real
  cfg_speed :: real
  cfg_radius_span :: real
  cfg_radius_min :: real
  cfg_attract_radius :: real
  cfg_attract_gain :: real
  cfg_twinkle_period :: real
  cfg_fill :: fill_mode
  cfg_alpha_base :: real
  cfg_link_dist :: real
  cfg_link_rgb :: "real \<times> real \<times> real"
  cfg_link_alpha :: real
  cfg_pointer_dist :: real
  cfg_pointer_alpha :: real
  cfg_pointer_width :: real

datatype rgba = RGBA jsnum jsnum jsnum jsnum

text \<open>One drawing call on the 2D context; a filled circle stands for
  \<open>beginPath(); arc(x, y, r, 0, 2\<pi>); fill()\<close> and a stroked line for
  \<open>beginPath(); moveTo; lineTo; stroke()\<close>, each with the style set just before.\<close>

datatype draw =
    ClearRect jsnum jsnum jsnum jsnum
  | FillCircle jsnum jsnum jsnum rgba
  | StrokeLine jsnum jsnum jsnum jsnum rgba jsnum

text \<open>The closure state of one mounted effect.\<close>

record field_state =
  fs_width :: jsnum
  fs_height :: jsnum
  fs_mouse_x :: jsnum
  fs_mouse_y :: jsnum
  fs_particles :: "particle list"

record canvas_state =
  cv_width :: "32 word"
  cv_height :: "32 word"
  cv_style_width :: jsnum
  cv_style_height :: jsnum
  cv_scale :: jsnum

definition field_init :: field_state where
  "field_init = \<lparr>fs_width = Fin 0, fs_height = Fin 0, fs_mouse_x = Fin (-9999),
                 fs_mouse_y = Fin (-9999), fs_particles = []\<rparr>"

section \<open>Device pixel ratio and resize\<close>

text \<open>\<open>const DPR = Math.min(window.devicePixelRatio || 1, 2)\<close>\<close>

definition fx_dpr :: "jsnum \<Rightarrow> jsnum" where
  "fx_dpr raw = jmin (js_or raw (Fin 1)) (Fin 2)"

definition fx_height :: "fx_config \<Rightarrow> nat \<Rightarrow> jsnum" where
  "fx_height c ih = (case cfg_height c of
      InnerHeight \<Rightarrow> Fin (real ih)
    | ClampedHeight \<Rightarrow> jmax (jmul (Fin (real ih)) (Fin 0.8)) (Fin 600))"

text \<open>\<open>Math.max(min, Math.min(max, Math.floor((width * height) / k)))\<close>\<close>

definition fx_count :: "fx_config \<Rightarrow> jsnum \<Rightarrow> jsnum \<Rightarrow> jsnum" where
  "fx_count c w h =
     jmax (Fin (cfg_min_count c))
       (jmin (Fin (cfg_max_count c)) (jfloor (jdiv (jmul w h) (Fin (cfg_density c)))))"

text \<open>The object literal of one new particle; its six calls of \<open>Math.random()\<close> are
  evaluated in the order of the fields, reading positions \<open>i\<close> to \<open>i + 5\<close>.\<close>

definition new_particle :: "fx_config \<Rightarrow> jsnum \<Rightarrow> jsnum \<Rightarrow> (nat \<Rightarrow> real) \<Rightarrow> nat \<Rightarrow> particle" where
  "new_particle c w h rnd i =
     \<lparr>p_x = jmul (Fin (rnd i)) w,
      p_y = jmul (Fin (rnd (i + 1))) h,
      p_vx = jmul (jsub (Fin (rnd (i + 2))) (Fin 0.5)) (Fin (cfg_speed c)),
      p_vy = jmul (jsub (Fin (rnd (i + 3))) (Fin 0.5)) (Fin (cfg_speed c)),
      p_r = jadd (jmul (Fin (rnd (i + 4))) (Fin (cfg_radius_span c))) (Fin (cfg_radius_min c)),
      p_seed = jmul (jmul (Fin (rnd (i + 5))) (Fin pi)) (Fin 2)\<rparr>"

text \<open>Assigning \<open>canvas.width = v\<close> (or \<open>height\<close>): the number is converted to an unsigned
  32-bit integer (WebIDL \<open>unsigned long\<close>, wrapping modulo \<open>2^32\<close>), and the attribute's
  reflecting setter keeps it only when it is at most \<open>2147483647\<close>; a larger value sets
  the attribute's default, 300 for the width and 150 for the height.\<close>

definition canvas_dim :: "32 word \<Rightarrow> jsnum \<Rightarrow> 32 word" where
  "canvas_dim dflt v = (let u = js_to_uint32 v in if u \<le> 2147483647 then u else dflt)"

text \<open>\<open>resize()\<close>: reads the window size, resizes the canvas buffer by the pixel ratio,
  sets the transform and replaces the particle array by \<open>Array.from({length: count}, ...)\<close>.
  The result is the new closure state, the new canvas state and the next position of the
  random stream.\<close>

definition fx_resize ::
  "fx_config \<Rightarrow> jsnum \<Rightarrow> nat \<Rightarrow> nat \<Rightarrow> (nat \<Rightarrow> real) \<Rightarrow> nat \<Rightarrow> field_state \<Rightarrow>
   field_state \<times> canvas_state \<times> nat" where
  "fx_resize c dpr iw ih rnd pos s =
     (let w = Fin (real iw);
          h = fx_height c ih;
          n = js_to_length (fx_count c w h);
          ps = map (\<lambda>k. new_particle c w h rnd (pos + 6 * k)) [0..<n]
      in (s\<lparr>fs_width := w, fs_height := h, fs_particles := ps\<rparr>,
          \<lparr>cv_width = canvas_dim 300 (jmul w dpr), cv_height = canvas_dim 150 (jmul h dpr),
           cv_style_width = w, cv_style_height = h, cv_scale = dpr\<rparr>,
          pos + 6 * n))"

text \<open>\<open>onMouseMove(e)\<close>: client coordinates made relative to the canvas rectangle.\<close>

definition fx_mouse_move :: "jsnum \<Rightarrow> jsnum \<Rightarrow> jsnum \<Rightarrow> jsnum \<Rightarrow> field_state \<Rightarrow> field_state" where
  "fx_mouse_move cx cy rect_left rect_top s =
     s\<lparr>fs_mouse_x := jsub cx rect_left, fs_mouse_y := jsub cy rect_top\<rparr>"

section \<open>One frame\<close>

text \<open>Attraction towards the pointer: a velocity kick along the unit vector to the pointer
  when it is closer than the attraction radius.\<close>

definition attract :: "fx_config \<Rightarrow> jsnum \<Rightarrow> jsnum \<Rightarrow> particle \<Rightarrow> particle" where
  "attract c mx my p =
     (let dxm = jsub mx (p_x p); dym = jsub my (p_y p); dm = jhypot dxm dym
      in if jlt dm (Fin (cfg_attract_radius c))
         then p\<lparr>p_vx := jadd (p_vx p) (jmul (jdiv dxm dm) (Fin (cfg_attract_gain c))),
                p_vy := jadd (p_vy p) (jmul (jdiv dym dm) (Fin (cfg_attract_gain c)))\<rparr>
         else p)"

definition advance :: "particle \<Rightarrow> particle" where
  "advance p = p\<lparr>p_x := jadd (p_x p) (p_vx p), p_y := jadd (p_y p) (p_vy p)\<rparr>"

text \<open>\<open>if (v < -50) v = ext + 50; if (v > ext + 50) v = -50;\<close>\<close>

definition wrap_coord :: "jsnum \<Rightarrow> jsnum \<Rightarrow> jsnum" where
  "wrap_coord ext v =
     (let v1 = (if jlt v (Fin (-50)) then jadd ext (Fin 50) else v)
      in if jgt v1 (jadd ext (Fin 50)) then Fin (-50) else v1)"

definition wrap :: "jsnum \<Rightarrow> jsnum \<Rightarrow> particle \<Rightarrow> particle" where
  "wrap w h p = p\<lparr>p_x := wrap_coord w (p_x p), p_y := wrap_coord h (p_y p)\<rparr>"

definition update_particle :: "fx_config \<Rightarrow> field_state \<Rightarrow> particle \<Rightarrow> particle" where
  "update_particle c s p =
     wrap (fs_width s) (fs_height s) (advance (attract c (fs_mouse_x s) (fs_mouse_y s) p))"

text \<open>Twinkle and colour of one particle at time \<open>t\<close>.\<close>

definition twinkle :: "fx_config \<Rightarrow> jsnum \<Rightarrow> particle \<Rightarrow> jsnum" where
  "twinkle c t p =
     jadd (Fin 0.5) (jmul (Fin 0.5) (jsin (jadd (jdiv t (Fin (cfg_twinkle_period c))) (p_seed p))))"

definition color_mix :: "real \<Rightarrow> jsnum \<Rightarrow> particle \<Rightarrow> jsnum" where
  "color_mix period t p =
     jadd (jmul (jsin (jadd (jdiv t (Fin period)) (jmul (p_seed p) (Fin 2)))) (Fin 0.5)) (Fin 0.5)"

definition fill_color :: "fx_config \<Rightarrow> jsnum \<Rightarrow> particle \<Rightarrow> rgba" where
  "fill_color c t p =
     (let a = jadd (Fin (cfg_alpha_base c)) (jmul (twinkle c t p) (Fin (cfg_alpha_base c)))
      in case cfg_fill c of
           WhiteFill \<Rightarrow> RGBA (Fin 255) (Fin 255) (Fin 255) a
         | CyanTealFill period \<Rightarrow>
             (let m = color_mix period t p
              in RGBA (jfloor (jadd (Fin 34) (jmul m (Fin 186))))
                      (jfloor (jsub (Fin 211) (jmul m (Fin 27))))
                      (jfloor (jsub (Fin 238) (jmul m (Fin 72)))) a))"

definition particle_fill :: "fx_config \<Rightarrow> jsnum \<Rightarrow> particle \<Rightarrow> draw" where
  "particle_fill c t p = FillCircle (p_x p) (p_y p) (p_r p) (fill_color c t p)"

text \<open>A line of opacity \<open>(1 - d / maxDist) * alpha\<close> between two points closer than
  \<open>maxDist\<close>.\<close>

definition fade :: "jsnum \<Rightarrow> real \<Rightarrow> real \<Rightarrow> jsnum" where
  "fade d maxd alpha = jmul (jsub (Fin 1) (jdiv d (Fin maxd))) (Fin alpha)"

definition link_line :: "fx_config \<Rightarrow> particle \<Rightarrow> particle \<Rightarrow> draw list" where
  "link_line c a b =
     (let d = jhypot (jsub (p_x a) (p_x b)) (jsub (p_y a) (p_y b));
          (r, g, bl) = cfg_link_rgb c
      in if jlt d (Fin (cfg_link_dist c))
         then [StrokeLine (p_x a) (p_y a) (p_x b) (p_y b)
                 (RGBA (Fin r) (Fin g) (Fin bl) (fade d (cfg_link_dist c) (cfg_link_alpha c))) (Fin 1)]
         else [])"

text \<open>The nested loop \<open>for i, for j > i\<close> over the particle array.\<close>

fun link_lines :: "fx_config \<Rightarrow> particle list \<Rightarrow> draw list" where
  "link_lines c [] = []"
| "link_lines c (a # bs) = List.maps (link_line c a) bs @ link_lines c bs"

definition pointer_line :: "fx_config \<Rightarrow> jsnum \<Rightarrow> jsnum \<Rightarrow> particle \<Rightarrow> draw list" where
  "pointer_line c mx my p =
     (let d = jhypot (jsub (p_x p) mx) (jsub (p_y p) my)
      in if jlt d (Fin (cfg_pointer_dist c))
         then [StrokeLine (p_x p) (p_y p) mx my
                 (RGBA (Fin 20) (Fin 184) (Fin 166) (fade d (cfg_pointer_dist c) (cfg_pointer_alpha c)))
                 (Fin (cfg_pointer_width c))]
         else [])"

text \<open>\<open>step(t)\<close> without its final \<open>requestAnimationFrame\<close>, which the lifecycle
  theory adds: the particles are updated in place and drawn one by one, then the links
  and the pointer lines are drawn from the updated positions.\<close>

definition fx_step :: "fx_config \<Rightarrow> jsnum \<Rightarrow> field_state \<Rightarrow> field_state \<times> draw list" where
  "fx_step c t s =
     (let ps = map (update_particle c s) (fs_particles s)
      in (s\<lparr>fs_particles := ps\<rparr>,
          ClearRect (Fin 0) (Fin 0) (fs_width s) (fs_height s)
            # map (particle_fill c t) ps @ link_lines c ps
            @ List.maps (pointer_line c (fs_mouse_x s) (fs_mouse_y s)) ps))"

section \<open>Invariant and reference loop\<close>

text \<open>A coordinate inside the wrap margin \<open>[-50, ext + 50]\<close>; a particle whose
  position and velocity have all become NaN (which happens when the pointer is exactly
  on it, \<open>0 / 0\<close> in the attraction); the per-particle invariant: inside the margin
  with finite velocity, or NaN throughout.\<close>

fun in_margin :: "real \<Rightarrow> jsnum \<Rightarrow> bool" where
  "in_margin e (Fin r) = (-50 \<le> r \<and> r \<le> e + 50)"
| "in_margin e _ = False"

definition poisoned :: "particle \<Rightarrow> bool" where
  "poisoned p \<longleftrightarrow> p_x p = NaN \<and> p_y p = NaN \<and> p_vx p = NaN \<and> p_vy p = NaN"

definition particle_ok :: "real \<Rightarrow> real \<Rightarrow> particle \<Rightarrow> bool" where
  "particle_ok w h p \<longleftrightarrow>
     (in_margin w (p_x p) \<and> in_margin h (p_y p) \<and> is_fin (p_vx p) \<and> is_fin (p_vy p)) \<or> poisoned p"

definition field_ok :: "field_state \<Rightarrow> bool" where
  "field_ok s \<longleftrightarrow>
     (case (fs_width s, fs_height s, fs_mouse_x s, fs_mouse_y s) of
        (Fin w, Fin h, Fin _, Fin _) \<Rightarrow> 0 \<le> w \<and> 0 \<le> h \<and> list_all (particle_ok w h) (fs_particles s)
      | _ \<Rightarrow> False)"

text \<open>The pair loop of the source written with indices, as a reference for
  \<open>link_lines\<close>.\<close>

definition link_lines_spec :: "fx_config \<Rightarrow> particle list \<Rightarrow> draw list" where
  "link_lines_spec c ps =
     concat (map (\<lambda>i. concat (map (\<lambda>j. link_line c (ps ! i) (ps ! j)) [Suc i..<length ps]))
                 [0..<length ps])"

section \<open>Lemmas\<close>

lemma wrap_coord_in_margin: "0 \<le> e \<Longrightarrow> in_margin e (wrap_coord (Fin e) (Fin v))"
  by (simp add: wrap_coord_def Let_def)

lemma wrap_coord_id: "in_margin e v \<Longrightarrow> wrap_coord (Fin e) v = v"
  by (cases v) (auto simp: wrap_coord_def Let_def)

lemma wrap_coord_NaN [simp]: "wrap_coord e NaN = NaN"
  by (simp add: wrap_coord_def Let_def)

lemma attract_far:
  assumes "p_x p = Fin x" "p_y p = Fin y"
    and "cfg_attract_radius c \<le> sqrt ((mx - x)\<^sup>2 + (my - y)\<^sup>2)"
  shows "attract c (Fin mx) (Fin my) p = p"
  using assms by (simp add: attract_def Let_def)

lemma attract_coincident:
  assumes "p_x p = Fin mx" "p_y p = Fin my" "0 < cfg_attract_radius c"
  shows "p_vx (attract c (Fin mx) (Fin my) p) = NaN \<and> p_vy (attract c (Fin mx) (Fin my) p) = NaN"
  using assms by (simp add: attract_def Let_def)

lemma attract_poisoned: "poisoned p \<Longrightarrow> attract c mx my p = p"
  by (simp add: attract_def poisoned_def Let_def)

lemma attract_finite:
  assumes "p_x p = Fin x" "p_y p = Fin y" "p_vx p = Fin vx" "p_vy p = Fin vy"
    and "(x, y) \<noteq> (mx, my)"
  shows "is_fin (p_vx (attract c (Fin mx) (Fin my) p)) \<and> is_fin (p_vy (attract c (Fin mx) (Fin my) p))
         \<and> p_x (attract c (Fin mx) (Fin my) p) = Fin x \<and> p_y (attract c (Fin mx) (Fin my) p) = Fin y"
proof -
  have "sqrt ((mx - x)\<^sup>2 + (my - y)\<^sup>2) \<noteq> 0" using assms(5) by auto
  then show ?thesis using assms by (auto simp: attract_def Let_def)
qed

lemma advance_Fin:
  "p_x p = Fin x \<Longrightarrow> p_y p = Fin y \<Longrightarrow> p_vx p = Fin vx \<Longrightarrow> p_vy p = Fin vy \<Longrightarrow>
   p_x (advance p) = Fin (x + vx) \<and> p_y (advance p) = Fin (y + vy)"
  by (simp add: advance_def)

lemma update_particle_poisoned:
  "poisoned p \<Longrightarrow> poisoned (update_particle c s p)"
  by (simp add: update_particle_def attract_poisoned advance_def wrap_def poisoned_def)

lemma update_particle_coincident:
  assumes "p_x p = Fin mx" "p_y p = Fin my" "fs_mouse_x s = Fin mx" "fs_mouse_y s = Fin my"
    and "0 < cfg_attract_radius c"
  shows "poisoned (update_particle c s p)"
  using assms by (simp add: update_particle_def attract_def advance_def wrap_def poisoned_def Let_def)

lemma update_particle_ok:
  assumes w: "fs_width s = Fin w" "0 \<le> w" and h: "fs_height s = Fin h" "0 \<le> h"
    and m: "fs_mouse_x s = Fin mx" "fs_mouse_y s = Fin my"
    and r: "0 < cfg_attract_radius c"
    and ok: "particle_ok w h p"
  shows "particle_ok w h (update_particle c s p)"
proof (cases "poisoned p")
  case True
  then show ?thesis by (simp add: particle_ok_def update_particle_poisoned)
next
  case False
  with ok obtain x y vx vy where p: "p_x p = Fin x" "p_y p = Fin y" "p_vx p = Fin vx" "p_vy p = Fin vy"
    by (auto simp: particle_ok_def is_fin_iff elim!: in_margin.elims)
  show ?thesis
  proof (cases "(x, y) = (mx, my)")
    case True
    then have "poisoned (update_particle c s p)"
      using update_particle_coincident [OF _ _ m r] p by simp
    then show ?thesis by (simp add: particle_ok_def)
  next
    case False
    then obtain vx' vy' where a: "p_vx (attract c (Fin mx) (Fin my) p) = Fin vx'"
        "p_vy (attract c (Fin mx) (Fin my) p) = Fin vy'"
        "p_x (attract c (Fin mx) (Fin my) p) = Fin x" "p_y (attract c (Fin mx) (Fin my) p) = Fin y"
      using attract_finite [OF p False, where c = c] by (auto simp: is_fin_iff)
    then show ?thesis
      using w h m by (simp add: update_particle_def particle_ok_def advance_def wrap_def
          wrap_coord_in_margin)
  qed
qed

text \<open>C4: the recursive link loop draws exactly the lines of the source's nested loop
  \<open>for (i = 0; i < n; i++) for (j = i + 1; j < n; j++)\<close>, in the same order.\<close>

lemma link_lines_eq_spec: "link_lines c ps = link_lines_spec c ps"
proof (induction ps)
  case Nil
  then show ?case by (simp add: link_lines_spec_def)
next
  case (Cons a bs)
  have idx: "[0..<length (a # bs)] = 0 # map Suc [0..<length bs]"
    by (simp only: length_Cons upt_conv_Cons [OF zero_less_Suc] map_Suc_upt)
  have row0: "concat (map (\<lambda>j. link_line c ((a # bs) ! 0) ((a # bs) ! j)) [Suc 0..<length (a # bs)])
              = List.maps (link_line c a) bs"
  proof -
    have "[Suc 0..<length (a # bs)] = map Suc [0..<length bs]"
      by (simp only: length_Cons map_Suc_upt)
    then have "map (\<lambda>j. link_line c ((a # bs) ! 0) ((a # bs) ! j)) [Suc 0..<length (a # bs)]
             = map (\<lambda>j. link_line c a (bs ! j)) [0..<length bs]"
      by simp
    also have "\<dots> = map (link_line c a) bs"
      by (rule nth_equalityI) simp_all
    finally show ?thesis by (simp add: List.maps_eq)
  qed
  have rows: "concat (map (\<lambda>j. link_line c ((a # bs) ! Suc i) ((a # bs) ! j)) [Suc (Suc i)..<length (a # bs)])
              = concat (map (\<lambda>j. link_line c (bs ! i) (bs ! j)) [Suc i..<length bs])" for i
  proof -
    have "[Suc (Suc i)..<length (a # bs)] = map Suc [Suc i..<length bs]"
      by (simp only: length_Cons map_Suc_upt)
    then show ?thesis by (simp add: comp_def del: upt_Suc)
  qed
  have "link_lines_spec c (a # bs) =
        List.maps (link_line c a) bs @
        concat (map (\<lambda>i. concat (map (\<lambda>j. link_line c (bs ! i) (bs ! j)) [Suc i..<length bs])) [0..<length bs])"
    unfolding link_lines_spec_def idx list.map(2) concat.simps(2) map_map comp_def row0 rows ..
  then show ?case
    using Cons.IH by (simp add: link_lines_spec_def)
qed

lemma link_line_Fin:
  assumes "p_x a = Fin ax" "p_y a = Fin ay" "p_x b = Fin bx" "p_y b = Fin by"
  shows "link_line c a b \<noteq> [] \<longleftrightarrow> sqrt ((ax - bx)\<^sup>2 + (ay - by)\<^sup>2) < cfg_link_dist c"
  using assms by (simp add: link_line_def Let_def split: prod.splits)

lemma fade_bounds:
  assumes "0 \<le> d" "d < maxd" "0 < alpha"
  shows "\<exists>v. fade (Fin d) maxd alpha = Fin v \<and> 0 < v \<and> v \<le> alpha"
proof -
  have pos: "0 < maxd" using assms by linarith
  then have "0 < 1 - d / maxd" "1 - d / maxd \<le> 1"
    using assms by (simp_all add: divide_less_eq_1_pos)
  then show ?thesis
    using pos assms by (simp add: fade_def mult_le_cancel_right1)
qed

lemma pointer_line_Fin:
  assumes "p_x p = Fin x" "p_y p = Fin y"
  shows "pointer_line c (Fin mx) (Fin my) p = [] \<longleftrightarrow> cfg_pointer_dist c \<le> sqrt ((x - mx)\<^sup>2 + (y - my)\<^sup>2)"
  using assms by (auto simp: pointer_line_def Let_def)

lemma fx_step_field_ok:
  assumes "field_ok s" "0 < cfg_attract_radius c"
  shows "field_ok (fst (fx_step c t s))"
proof -
  obtain w h mx my where s: "fs_width s = Fin w" "fs_height s = Fin h" "fs_mouse_x s = Fin mx"
      "fs_mouse_y s = Fin my" and wh: "0 \<le> w" "0 \<le> h"
      and ps: "list_all (particle_ok w h) (fs_particles s)"
    using assms(1) by (auto simp: field_ok_def split: jsnum.splits)
  have "list_all (particle_ok w h) (map (update_particle c s) (fs_particles s))"
    using ps update_particle_ok [OF s(1) wh(1) s(2) wh(2) s(3) s(4) assms(2)]
    by (simp add: list_all_iff)
  then show ?thesis using s wh by (simp add: fx_step_def field_ok_def Let_def)
qed

lemma fx_count_Fin:
  "cfg_density c \<noteq> 0 \<Longrightarrow>
   fx_count c (Fin w) (Fin h) =
     Fin (max (cfg_min_count c) (min (cfg_max_count c) (of_int \<lfloor>w * h / cfg_density c\<rfloor>)))"
  by (simp add: fx_count_def)

lemma fx_height_Fin: "\<exists>h. fx_height c ih = Fin h \<and> real ih \<le> h \<or> fx_height c ih = Fin h \<and> 600 \<le> h"
  by (cases "cfg_height c") (auto simp: fx_height_def)

lemma fx_height_nonneg: "\<exists>h. fx_height c ih = Fin h \<and> 0 \<le> h"
  by (cases "cfg_height c") (auto simp: fx_height_def)

lemma new_particle_ok:
  assumes "0 \<le> w" "0 \<le> h" "\<forall>k. 0 \<le> rnd k \<and> rnd k < 1"
  shows "particle_ok w h (new_particle c (Fin w) (Fin h) rnd i)"
proof -
  have ri: "0 \<le> rnd i" "rnd i \<le> 1" "0 \<le> rnd (i + 1)" "rnd (i + 1) \<le> 1"
    using assms(3) less_imp_le by blast+
  have "0 \<le> rnd i * w" "rnd i * w \<le> w" "0 \<le> rnd (i + 1) * h" "rnd (i + 1) * h \<le> h"
    using assms(1,2) ri by (simp_all add: mult_left_le_one_le)
  then show ?thesis
    by (simp add: particle_ok_def new_particle_def mult.commute)
qed

lemma fx_resize_particles:
  assumes "fx_resize c dpr iw ih rnd pos s = (s', cv, pos')"
  shows "length (fs_particles s') = js_to_length (fx_count c (Fin (real iw)) (fx_height c ih))
         \<and> pos' = pos + 6 * length (fs_particles s')
         \<and> fs_width s' = Fin (real iw) \<and> fs_height s' = fx_height c ih
         \<and> fs_mouse_x s' = fs_mouse_x s \<and> fs_mouse_y s' = fs_mouse_y s"
  using assms by (auto simp: fx_resize_def Let_def)

lemma fx_resize_field_ok:
  assumes "fx_resize c dpr iw ih rnd pos s = (s', cv, pos')"
    and "is_fin (fs_mouse_x s)" "is_fin (fs_mouse_y s)"
    and "\<forall>k. 0 \<le> rnd k \<and> rnd k < 1"
  shows "field_ok s'"
proof -
  obtain h where h: "fx_height c ih = Fin h" "0 \<le> h"
    using fx_height_nonneg by blast
  obtain mx my where m: "fs_mouse_x s = Fin mx" "fs_mouse_y s = Fin my"
    using assms(2,3) by (auto simp: is_fin_iff)
  show ?thesis
    using assms(1) h m new_particle_ok [OF _ h(2) assms(4)]
    by (auto simp: fx_resize_def Let_def field_ok_def list_all_iff)
qed

lemma floor_mix_up:
  assumes "0 \<le> m" "m \<le> 1" "0 \<le> k"
  shows "lo \<le> \<lfloor>of_int lo + m * of_int k :: real\<rfloor> \<and> \<lfloor>of_int lo + m * of_int k :: real\<rfloor> \<le> lo + k"
proof -
  have "0 \<le> m * of_int k" "m * of_int k \<le> of_int k" using assms by (simp_all add: mult_left_le_one_le)
  then show ?thesis by (simp add: le_floor_iff floor_le_iff)
qed

lemma floor_mix_down:
  assumes "0 \<le> m" "m \<le> 1" "0 \<le> k"
  shows "hi - k \<le> \<lfloor>of_int hi - m * of_int k :: real\<rfloor> \<and> \<lfloor>of_int hi - m * of_int k :: real\<rfloor> \<le> hi"
proof -
  have "0 \<le> m * of_int k" "m * of_int k \<le> of_int k" using assms by (simp_all add: mult_left_le_one_le)
  then show ?thesis by (simp add: le_floor_iff floor_le_iff)
qed

lemma sin_mix_bounds: "0 \<le> sin a * 0.5 + (0.5::real) \<and> sin a * 0.5 + 0.5 \<le> (1::real)"
  using sin_ge_minus_one [of a] sin_le_one [of a] by linarith

lemma twinkle_Fin:
  "cfg_twinkle_period c \<noteq> 0 \<Longrightarrow> p_seed p = Fin sd \<Longrightarrow>
   twinkle c (Fin t) p = Fin (0.5 + 0.5 * sin (t / cfg_twinkle_period c + sd))"
  by (simp add: twinkle_def)

lemma color_mix_Fin:
  "period \<noteq> 0 \<Longrightarrow> p_seed p = Fin sd \<Longrightarrow>
   color_mix period (Fin t) p = Fin (sin (t / period + sd * 2) * 0.5 + 0.5)"
  by (simp add: color_mix_def)

lemma fill_color_at_mix:
  assumes "cfg_fill c = CyanTealFill period" "period \<noteq> 0" "cfg_twinkle_period c \<noteq> 0"
    and "p_seed p = Fin sd"
  shows "fill_color c (Fin t) p =
           (let m = sin (t / period + sd * 2) * 0.5 + 0.5;
                tw = 0.5 + 0.5 * sin (t / cfg_twinkle_period c + sd)
            in RGBA (Fin (of_int \<lfloor>34 + m * 186\<rfloor>)) (Fin (of_int \<lfloor>211 - m * 27\<rfloor>))
                    (Fin (of_int \<lfloor>238 - m * 72\<rfloor>)) (Fin (cfg_alpha_base c + tw * cfg_alpha_base c)))"
  using assms by (simp add: fill_color_def twinkle_Fin color_mix_Fin Let_def)

text \<open>C11: in the colour mode of Hero, About, Skills and Projects every fill colour has
  integer byte channels on the segment from rgb(34, 211, 238) to rgb(220, 184, 166), with an
  alpha between the base opacity and twice the base. The segment's far end is drawn (when
  the mix is 1) and is a beige, not teal: the colour is never the cyan-500 rgb(6, 182, 212)
  nor the teal-400 rgb(45, 212, 191) that the comment "De cyan-500 a teal-400" names.\<close>

lemma fill_color_bounds:
  assumes "cfg_fill c = CyanTealFill period" "period \<noteq> 0" "cfg_twinkle_period c \<noteq> 0"
    and "p_seed p = Fin sd" "0 \<le> cfg_alpha_base c"
  shows "(\<exists>r g b a. fill_color c (Fin t) p = RGBA (Fin r) (Fin g) (Fin b) (Fin a)
           \<and> 34 \<le> r \<and> r \<le> 220 \<and> 184 \<le> g \<and> g \<le> 211 \<and> 166 \<le> b \<and> b \<le> 238
           \<and> r \<in> \<int> \<and> g \<in> \<int> \<and> b \<in> \<int>
           \<and> (r, g, b) \<noteq> (6, 182, 212) \<and> (r, g, b) \<noteq> (45, 212, 191)
           \<and> cfg_alpha_base c \<le> a \<and> a \<le> 2 * cfg_alpha_base c)
         \<and> (\<exists>a. fill_color c (Fin (period * (pi / 2 - sd * 2))) p = RGBA (Fin 220) (Fin 184) (Fin 166) (Fin a))"
proof
  define m where "m = sin (t / period + sd * 2) * 0.5 + (0.5::real)"
  define tw where "tw = 0.5 + 0.5 * sin (t / cfg_twinkle_period c + sd)"
  have m: "0 \<le> m" "m \<le> 1" using sin_mix_bounds m_def by auto
  have tw: "0 \<le> tw" "tw \<le> 1"
    using sin_ge_minus_one [of "t / cfg_twinkle_period c + sd"] sin_le_one [of "t / cfg_twinkle_period c + sd"]
    unfolding tw_def by linarith+
  have r: "34 \<le> \<lfloor>34 + m * 186\<rfloor> \<and> \<lfloor>34 + m * 186\<rfloor> \<le> (220::int)"
    using floor_mix_up [OF m, of 186 34] by simp
  have g: "184 \<le> \<lfloor>211 - m * 27\<rfloor> \<and> \<lfloor>211 - m * 27\<rfloor> \<le> (211::int)"
    using floor_mix_down [OF m, of 27 211] by simp
  have b: "166 \<le> \<lfloor>238 - m * 72\<rfloor> \<and> \<lfloor>238 - m * 72\<rfloor> \<le> (238::int)"
    using floor_mix_down [OF m, of 72 238] by simp
  have a: "cfg_alpha_base c \<le> cfg_alpha_base c + tw * cfg_alpha_base c"
      "cfg_alpha_base c + tw * cfg_alpha_base c \<le> 2 * cfg_alpha_base c"
    using tw assms(5) by (simp_all add: mult_left_le_one_le)
  have eq: "fill_color c (Fin t) p =
      RGBA (Fin (of_int \<lfloor>34 + m * 186\<rfloor>)) (Fin (of_int \<lfloor>211 - m * 27\<rfloor>))
           (Fin (of_int \<lfloor>238 - m * 72\<rfloor>)) (Fin (cfg_alpha_base c + tw * cfg_alpha_base c))"
    using fill_color_at_mix [OF assms(1-4)] by (simp add: m_def tw_def Let_def)
  have "\<lfloor>34 + m * 186\<rfloor> \<noteq> 6" "\<lfloor>211 - m * 27\<rfloor> \<noteq> 212" using r g by linarith+
  then have "real_of_int \<lfloor>34 + m * 186\<rfloor> \<noteq> 6" "real_of_int \<lfloor>211 - m * 27\<rfloor> \<noteq> 212"
    by (simp_all only: of_int_eq_numeral_iff not_False_eq_True)
  then have ne: "(real_of_int \<lfloor>34 + m * 186\<rfloor>, real_of_int \<lfloor>211 - m * 27\<rfloor>, real_of_int \<lfloor>238 - m * 72\<rfloor>)
                   \<noteq> (6, 182, 212)"
      "(real_of_int \<lfloor>34 + m * 186\<rfloor>, real_of_int \<lfloor>211 - m * 27\<rfloor>, real_of_int \<lfloor>238 - m * 72\<rfloor>)
                   \<noteq> (45, 212, 191)"
    by (simp_all only: prod.inject simp_thms)
  show "\<exists>r g b a. fill_color c (Fin t) p = RGBA (Fin r) (Fin g) (Fin b) (Fin a)
           \<and> 34 \<le> r \<and> r \<le> 220 \<and> 184 \<le> g \<and> g \<le> 211 \<and> 166 \<le> b \<and> b \<le> 238
           \<and> r \<in> \<int> \<and> g \<in> \<int> \<and> b \<in> \<int>
           \<and> (r, g, b) \<noteq> (6, 182, 212) \<and> (r, g, b) \<noteq> (45, 212, 191)
           \<and> cfg_alpha_base c \<le> a \<and> a \<le> 2 * cfg_alpha_base c"
  proof (intro exI conjI)
    show "fill_color c (Fin t) p =
      RGBA (Fin (of_int \<lfloor>34 + m * 186\<rfloor>)) (Fin (of_int \<lfloor>211 - m * 27\<rfloor>))
           (Fin (of_int \<lfloor>238 - m * 72\<rfloor>)) (Fin (cfg_alpha_base c + tw * cfg_alpha_base c))"
      by (rule eq)
  qed (use r g b a ne in simp_all)
next
  let ?t = "period * (pi / 2 - sd * 2)"
  have "?t / period + sd * 2 = pi / 2" using assms(2) by simp
  then have m1: "sin (?t / period + sd * 2) * 0.5 + 0.5 = (1::real)" by (simp only: sin_pi_half)
  have "fill_color c (Fin ?t) p =
          RGBA (Fin (of_int \<lfloor>34 + 1 * (186::real)\<rfloor>)) (Fin (of_int \<lfloor>211 - 1 * (27::real)\<rfloor>))
               (Fin (of_int \<lfloor>238 - 1 * (72::real)\<rfloor>))
               (Fin (cfg_alpha_base c + (0.5 + 0.5 * sin (?t / cfg_twinkle_period c + sd)) * cfg_alpha_base c))"
    using fill_color_at_mix [OF assms(1-4), of ?t] by (simp only: Let_def m1)
  then show "\<exists>a. fill_color c (Fin ?t) p = RGBA (Fin 220) (Fin 184) (Fin 166) (Fin a)" by simp
qed

lemma fx_dpr_Fin: "fx_dpr (Fin r) = Fin (if r = 0 then 1 else min r 2)"
  by (simp add: fx_dpr_def js_or_def js_truthy_def)

lemma fx_dpr_NaN: "fx_dpr NaN = Fin 1" and fx_dpr_PInf: "fx_dpr PInf = Fin 2"
  by (simp_all add: fx_dpr_def js_or_def js_truthy_def jmin_def)

lemma unat_js_to_uint32_wrap:
  assumes "0 \<le> a"
  shows "unat (js_to_uint32 (Fin a)) = nat \<lfloor>a\<rfloor> mod 2 ^ 32"
proof -
  have "0 \<le> \<lfloor>a\<rfloor>" using assms by simp
  then show ?thesis using assms by (simp add: unat_eq_nat_uint uint_word_of_int nat_mod_distrib nat_power_eq)
qed

lemma unat_canvas_dim:
  assumes "0 \<le> a"
  shows "unat (canvas_dim dflt (Fin a)) =
           (if nat \<lfloor>a\<rfloor> mod 2 ^ 32 \<le> 2147483647 then nat \<lfloor>a\<rfloor> mod 2 ^ 32 else unat dflt)"
proof -
  have "js_to_uint32 (Fin a) \<le> 2147483647 \<longleftrightarrow> unat (js_to_uint32 (Fin a)) \<le> 2147483647"
    by (simp add: word_le_nat_alt)
  then show ?thesis using unat_js_to_uint32_wrap [OF assms] by (simp add: canvas_dim_def Let_def)
qed

lemma poisoned_no_links:
  "poisoned a \<Longrightarrow> link_line c a b = [] \<and> link_line c b a = [] \<and> pointer_line c mx my a = []"
  by (simp add: poisoned_def link_line_def pointer_line_def jhypot_def Let_def split: prod.splits)

lemma attract_velocity_frame:
  "p_vx (wrap w h (advance q)) = p_vx q \<and> p_vy (wrap w h (advance q)) = p_vy q"
  by (simp add: wrap_def advance_def)

lemma attract_kick:
  assumes "p_x p = Fin x" "p_y p = Fin y" "p_vx p = Fin vx" "p_vy p = Fin vy"
    and "(x, y) \<noteq> (mx, my)" "0 \<le> cfg_attract_gain c"
  shows "\<exists>vx' vy'. p_vx (attract c (Fin mx) (Fin my) p) = Fin vx' \<and> p_vy (attract c (Fin mx) (Fin my) p) = Fin vy'
           \<and> \<bar>vx' - vx\<bar> \<le> cfg_attract_gain c \<and> \<bar>vy' - vy\<bar> \<le> cfg_attract_gain c"
proof -
  let ?d = "sqrt ((mx - x)\<^sup>2 + (my - y)\<^sup>2)"
  have nz: "?d \<noteq> 0" using assms(5) by auto
  have bx: "\<bar>(mx - x) / ?d\<bar> \<le> 1" by (rule div_sqrt_sum_sq_bound [OF nz])
  have nz': "sqrt ((my - y)\<^sup>2 + (mx - x)\<^sup>2) \<noteq> 0" using nz by (simp add: add.commute)
  have by': "\<bar>(my - y) / ?d\<bar> \<le> 1"
    using div_sqrt_sum_sq_bound [OF nz'] by (simp add: add.commute)
  have kx: "\<bar>(mx - x) / ?d * cfg_attract_gain c\<bar> \<le> cfg_attract_gain c"
    by (rule abs_mult_le_gain [OF bx assms(6)])
  have ky: "\<bar>(my - y) / ?d * cfg_attract_gain c\<bar> \<le> cfg_attract_gain c"
    by (rule abs_mult_le_gain [OF by' assms(6)])
  show ?thesis
  proof (cases "?d < cfg_attract_radius c")
    case True
    then show ?thesis using assms(1-4) nz kx ky by (simp add: attract_def Let_def)
  next
    case False
    then show ?thesis using assms(1-4,6) by (simp add: attract_def Let_def)
  qed
qed

end
