(* ===== verification/Fx_Lifecycle.thy ===== *)
theory Fx_Lifecycle
  imports Particle_Field
begin

text \<open>
  The effect that hosts the particle field: \<open>useEffect(() => {...}, [])\<close> in each of
  the five files. It runs once when the component mounts: it returns early when the
  canvas or its 2D context is missing; otherwise it computes the pixel ratio, calls
  \<open>resize()\<close>, registers the \<open>resize\<close> and \<open>mousemove\<close> listeners on the window and
  requests the first animation frame. Every frame runs \<open>step\<close>, which requests the next
  one and stores its id in \<open>raf\<close>. The cleanup cancels \<open>raf\<close> and removes both
  listeners. The browser side is explicit: the window's listener list (as a list
  without duplicates, since \<open>addEventListener\<close> ignores a function already
  registered) and the queue of pending animation-frame callbacks with the ids
  \<open>requestAnimationFrame\<close> returned. A listener or callback is tagged by the mount
  generation whose closure it belongs to.
\<close>

datatype fx_phase = Unmounted | Inert | Running

datatype listener = ResizeListener nat | MouseListener nat

record fx_sys =
  sys_phase :: fx_phase
  sys_gen :: nat
  sys_field :: field_state
  sys_canvas :: canvas_state
  sys_dpr :: jsnum
  sys_raf :: nat
  sys_listeners :: "listener list"
  sys_frames :: "(nat \<times> nat) list"
  sys_next_id :: nat
  sys_rng :: nat
  sys_drawn :: "draw list"

text \<open>Events of the host: mounting (is there a canvas, is there a 2D context, the
  device pixel ratio, the window size), a window resize, a mouse move (client
  coordinates and the canvas rectangle's left and top), an animation frame with its
  timestamp, and unmounting.\<close>

datatype host_event =
    Mount bool bool jsnum nat nat
  | WinResize nat nat
  | MouseMove real real real real
  | AnimFrame real
  | Unmount

definition canvas_init :: canvas_state where
  "canvas_init = \<lparr>cv_width = 300, cv_height = 150, cv_style_width = Fin 0,
                  cv_style_height = Fin 0, cv_scale = Fin 1\<rparr>"

definition sys_init :: fx_sys where
  "sys_init = \<lparr>sys_phase = Unmounted, sys_gen = 0, sys_field = field_init,
               sys_canvas = canvas_init, sys_dpr = Fin 1, sys_raf = 0, sys_listeners = [],
               sys_frames = [], sys_next_id = 1, sys_rng = 0, sys_drawn = []\<rparr>"

definition add_listener :: "listener \<Rightarrow> listener list \<Rightarrow> listener list" where
  "add_listener l ls = (if l \<in> set ls then ls else ls @ [l])"

definition remove_listener :: "listener \<Rightarrow> listener list \<Rightarrow> listener list" where
  "remove_listener l ls = removeAll l ls"

text \<open>\<open>raf = requestAnimationFrame(step)\<close>\<close>

definition request_frame :: "fx_sys \<Rightarrow> fx_sys" where
  "request_frame s =
     s\<lparr>sys_raf := sys_next_id s, sys_frames := sys_frames s @ [(sys_next_id s, sys_gen s)],
       sys_next_id := Suc (sys_next_id s)\<rparr>"

text \<open>\<open>cancelAnimationFrame(raf)\<close>\<close>

definition cancel_frame :: "nat \<Rightarrow> fx_sys \<Rightarrow> fx_sys" where
  "cancel_frame i s = s\<lparr>sys_frames := filter (\<lambda>(j, _). j \<noteq> i) (sys_frames s)\<rparr>"

text \<open>The \<open>resize\<close> closure, run against the window size.\<close>

definition run_resize :: "fx_config \<Rightarrow> (nat \<Rightarrow> real) \<Rightarrow> nat \<Rightarrow> nat \<Rightarrow> fx_sys \<Rightarrow> fx_sys" where
  "run_resize c rnd iw ih s =
     (case fx_resize c (sys_dpr s) iw ih rnd (sys_rng s) (sys_field s) of
        (f, cv, pos) \<Rightarrow> s\<lparr>sys_field := f, sys_canvas := cv, sys_rng := pos\<rparr>)"

text \<open>The \<open>step\<close> closure: one frame, then the request of the next one.\<close>

definition run_step :: "fx_config \<Rightarrow> real \<Rightarrow> fx_sys \<Rightarrow> fx_sys" where
  "run_step c t s =
     (case fx_step c (Fin t) (sys_field s) of
        (f, cmds) \<Rightarrow> request_frame (s\<lparr>sys_field := f, sys_drawn := cmds\<rparr>))"

text \<open>The browser runs, in order, the callbacks pending when the frame starts; a
  callback requested during the frame waits for the next one. Only callbacks of the
  live closure are modelled (the invariant below shows there are no others).\<close>

fun fire_frames :: "fx_config \<Rightarrow> real \<Rightarrow> (nat \<times> nat) list \<Rightarrow> fx_sys \<Rightarrow> fx_sys" where
  "fire_frames c t [] s = s"
| "fire_frames c t ((i, g) # rest) s =
     fire_frames c t rest
       (if g = sys_gen s \<and> sys_phase s = Running then run_step c t s else s)"

text \<open>The effect body run at mount.\<close>

definition mount :: "fx_config \<Rightarrow> (nat \<Rightarrow> real) \<Rightarrow> bool \<Rightarrow> bool \<Rightarrow> jsnum \<Rightarrow> nat \<Rightarrow> nat \<Rightarrow>
                     fx_sys \<Rightarrow> fx_sys" where
  "mount c rnd has_canvas has_ctx dpr iw ih s =
     (let s1 = s\<lparr>sys_gen := Suc (sys_gen s)\<rparr>
      in if \<not> has_canvas \<or> \<not> has_ctx then s1\<lparr>sys_phase := Inert\<rparr>
         else
           (let s2 = run_resize c rnd iw ih
                       (s1\<lparr>sys_dpr := fx_dpr dpr, sys_raf := 0, sys_field := field_init\<rparr>);
                s3 = s2\<lparr>sys_listeners :=
                       add_listener (MouseListener (sys_gen s1))
                         (add_listener (ResizeListener (sys_gen s1)) (sys_listeners s2))\<rparr>
            in request_frame s3\<lparr>sys_phase := Running\<rparr>))"

text \<open>The cleanup function returned by the effect; an effect that returned early
  returned no cleanup.\<close>

definition cleanup :: "fx_sys \<Rightarrow> fx_sys" where
  "cleanup s =
     (let s1 = cancel_frame (sys_raf s) s
      in s1\<lparr>sys_listeners := remove_listener (MouseListener (sys_gen s))
                              (remove_listener (ResizeListener (sys_gen s)) (sys_listeners s1))\<rparr>)"

fun fx_event :: "fx_config \<Rightarrow> (nat \<Rightarrow> real) \<Rightarrow> host_event \<Rightarrow> fx_sys \<Rightarrow> fx_sys" where
  "fx_event c rnd (Mount cv ctx dpr iw ih) s =
     (if sys_phase s = Unmounted then mount c rnd cv ctx dpr iw ih s else s)"
| "fx_event c rnd (WinResize iw ih) s =
     (if ResizeListener (sys_gen s) \<in> set (sys_listeners s) then run_resize c rnd iw ih s else s)"
| "fx_event c rnd (MouseMove cx cy l tp) s =
     (if MouseListener (sys_gen s) \<in> set (sys_listeners s)
      then s\<lparr>sys_field := fx_mouse_move (Fin cx) (Fin cy) (Fin l) (Fin tp) (sys_field s)\<rparr>
      else s)"
| "fx_event c rnd (AnimFrame t) s = fire_frames c t (sys_frames s) (s\<lparr>sys_frames := []\<rparr>)"
| "fx_event c rnd Unmount s =
     (case sys_phase s of
        Running \<Rightarrow> (cleanup s)\<lparr>sys_phase := Unmounted\<rparr>
      | Inert \<Rightarrow> s\<lparr>sys_phase := Unmounted\<rparr>
      | Unmounted \<Rightarrow> s)"

fun fx_run :: "fx_config \<Rightarrow> (nat \<Rightarrow> real) \<Rightarrow> host_event list \<Rightarrow> fx_sys \<Rightarrow> fx_sys" where
  "fx_run c rnd [] s = s"
| "fx_run c rnd (e # es) s = fx_run c rnd es (fx_event c rnd e s)"

inductive fx_reachable :: "fx_config \<Rightarrow> (nat \<Rightarrow> real) \<Rightarrow> fx_sys \<Rightarrow> bool" for c rnd where
  init: "fx_reachable c rnd sys_init"
| step: "fx_reachable c rnd s \<Longrightarrow> fx_reachable c rnd (fx_event c rnd e s)"

section \<open>Invariant\<close>

text \<open>The lifecycle invariant: a running effect has exactly its two listeners and
  exactly one pending frame, whose id is the one in \<open>raf\<close>, and its particle field
  satisfies \<open>field_ok\<close>; any other phase has no listener and no pending frame.\<close>

definition sys_inv :: "fx_sys \<Rightarrow> bool" where
  "sys_inv s \<longleftrightarrow>
     (if sys_phase s = Running
      then sys_listeners s = [ResizeListener (sys_gen s), MouseListener (sys_gen s)]
           \<and> sys_frames s = [(sys_raf s, sys_gen s)] \<and> field_ok (sys_field s)
      else sys_listeners s = [] \<and> sys_frames s = [])"

definition cfg_ok :: "fx_config \<Rightarrow> bool" where
  "cfg_ok c \<longleftrightarrow> 0 < cfg_attract_radius c"

section \<open>Lemmas\<close>

lemma field_ok_mouse_move:
  "field_ok s \<Longrightarrow> field_ok (fx_mouse_move (Fin cx) (Fin cy) (Fin l) (Fin tp) s)"
  by (auto simp: field_ok_def fx_mouse_move_def split: jsnum.splits)

lemma field_ok_mouse_finite:
  "field_ok s \<Longrightarrow> is_fin (fs_mouse_x s) \<and> is_fin (fs_mouse_y s)"
  by (auto simp: field_ok_def split: jsnum.splits)

lemma run_resize_field_ok:
  assumes "is_fin (fs_mouse_x (sys_field s))" "is_fin (fs_mouse_y (sys_field s))"
    and "\<forall>k. 0 \<le> rnd k \<and> rnd k < 1"
  shows "field_ok (sys_field (run_resize c rnd iw ih s))
         \<and> sys_listeners (run_resize c rnd iw ih s) = sys_listeners s
         \<and> sys_frames (run_resize c rnd iw ih s) = sys_frames s
         \<and> sys_phase (run_resize c rnd iw ih s) = sys_phase s
         \<and> sys_gen (run_resize c rnd iw ih s) = sys_gen s
         \<and> sys_raf (run_resize c rnd iw ih s) = sys_raf s"
proof -
  obtain f cv pos where r: "fx_resize c (sys_dpr s) iw ih rnd (sys_rng s) (sys_field s) = (f, cv, pos)"
    by (cases "fx_resize c (sys_dpr s) iw ih rnd (sys_rng s) (sys_field s)") auto
  have "field_ok f" using fx_resize_field_ok [OF r assms] .
  then show ?thesis using r by (simp add: run_resize_def)
qed

lemma sys_inv_init: "sys_inv sys_init"
  by (simp add: sys_inv_def sys_init_def)

lemma field_init_mouse: "is_fin (fs_mouse_x field_init) \<and> is_fin (fs_mouse_y field_init)"
  by (simp add: field_init_def)

lemma mount_inv:
  assumes "sys_inv s" "sys_phase s = Unmounted" "\<forall>k. 0 \<le> rnd k \<and> rnd k < 1"
  shows "sys_inv (mount c rnd cv ctx dpr iw ih s)"
proof (cases "cv \<and> ctx")
  case False
  then show ?thesis using assms(1,2) by (auto simp: mount_def sys_inv_def Let_def)
next
  case True
  let ?s1 = "s\<lparr>sys_gen := Suc (sys_gen s), sys_dpr := fx_dpr dpr, sys_raf := 0, sys_field := field_init\<rparr>"
  have r: "field_ok (sys_field (run_resize c rnd iw ih ?s1))"
    "sys_listeners (run_resize c rnd iw ih ?s1) = []"
    "sys_frames (run_resize c rnd iw ih ?s1) = []"
    "sys_gen (run_resize c rnd iw ih ?s1) = Suc (sys_gen s)"
    using run_resize_field_ok [of ?s1 rnd c iw ih] assms field_init_mouse
    by (auto simp: sys_inv_def)
  show ?thesis
    using True r by (simp add: mount_def sys_inv_def Let_def request_frame_def add_listener_def)
qed

lemma fire_frames_single:
  "sys_phase s = Running \<Longrightarrow> fire_frames c t [(i, sys_gen s)] s = run_step c t s"
  by simp

lemma run_step_inv:
  assumes "sys_phase s = Running" "field_ok (sys_field s)" "cfg_ok c"
    and "sys_listeners s = [ResizeListener (sys_gen s), MouseListener (sys_gen s)]"
    and "sys_frames s = []"
  shows "sys_inv (run_step c t s)"
proof -
  obtain f cmds where st: "fx_step c (Fin t) (sys_field s) = (f, cmds)"
    by (cases "fx_step c (Fin t) (sys_field s)") auto
  have "field_ok f"
    using fx_step_field_ok [OF assms(2), of c "Fin t"] assms(3) st by (simp add: cfg_ok_def)
  then show ?thesis
    using assms st by (simp add: run_step_def request_frame_def sys_inv_def)
qed

lemma fx_event_inv:
  assumes "sys_inv s" "cfg_ok c" "\<forall>k. 0 \<le> rnd k \<and> rnd k < 1"
  shows "sys_inv (fx_event c rnd e s)"
proof (cases e)
  case (Mount cv ctx dpr iw ih)
  then show ?thesis using assms mount_inv by simp
next
  case (WinResize iw ih)
  show ?thesis
  proof (cases "sys_phase s = Running")
    case True
    then have "field_ok (sys_field s)" using assms(1) by (simp add: sys_inv_def)
    then show ?thesis
      using True WinResize assms run_resize_field_ok [of s rnd c iw ih] field_ok_mouse_finite
      by (simp add: sys_inv_def)
  next
    case False
    then show ?thesis using WinResize assms(1) by (simp add: sys_inv_def)
  qed
next
  case (MouseMove cx cy l tp)
  then show ?thesis using assms(1) field_ok_mouse_move by (auto simp: sys_inv_def)
next
  case (AnimFrame t)
  show ?thesis
  proof (cases "sys_phase s = Running")
    case True
    then show ?thesis
      using AnimFrame assms run_step_inv [of "s\<lparr>sys_frames := []\<rparr>" c t]
      by (simp add: sys_inv_def)
  next
    case False
    then show ?thesis using AnimFrame assms(1) by (simp add: sys_inv_def)
  qed
next
  case Unmount
  then show ?thesis
    using assms(1)
    by (cases "sys_phase s")
       (simp_all add: sys_inv_def cleanup_def cancel_frame_def remove_listener_def Let_def)
qed

lemma fx_reachable_inv:
  assumes "fx_reachable c rnd s" "cfg_ok c" "\<forall>k. 0 \<le> rnd k \<and> rnd k < 1"
  shows "sys_inv s"
  using assms(1)
proof (induction rule: fx_reachable.induct)
  case init
  then show ?case by (rule sys_inv_init)
next
  case (step s e)
  then show ?case using fx_event_inv assms(2,3) by blast
qed

end
