(* ===== verification/Fx_Instances.thy ===== *)
theory Fx_Instances
  imports Fx_Lifecycle
begin

text \<open>
  The five copies of the particle effect, each the generic effect of Fx_Lifecycle at the
  constants written in its file. \<open>bgfx\<close> is src/src/components/BackgroundFX.tsx (used
  by Contact.tsx), \<open>hero\<close> is the effect in Hero.tsx, and \<open>about\<close>, \<open>skills\<close>,
  \<open>projects\<close> are the local \<open>BackgroundFX\<close> components of About.tsx, Skills.tsx and
  Projects.tsx (textually the same code).
\<close>

definition bgfx_config :: fx_config where
  "bgfx_config =
     \<lparr>cfg_height = ClampedHeight, cfg_min_count = 60, cfg_max_count = 160, cfg_density = 24000,
      cfg_speed = 0.45, cfg_radius_span = 1.8, cfg_radius_min = 0.6,
      cfg_attract_radius = 180, cfg_attract_gain = 0.005, cfg_twinkle_period = 600,
      cfg_fill = WhiteFill, cfg_alpha_base = 0.35, cfg_link_dist = 120,
      cfg_link_rgb = (255, 255, 255), cfg_link_alpha = 0.25, cfg_pointer_dist = 160,
      cfg_pointer_alpha = 0.35, cfg_pointer_width = 1\<rparr>"

definition hero_config :: fx_config where
  "hero_config =
     \<lparr>cfg_height = InnerHeight, cfg_min_count = 70, cfg_max_count = 200, cfg_density = 20000,
      cfg_speed = 0.45, cfg_radius_span = 1.8, cfg_radius_min = 0.6,
      cfg_attract_radius = 180, cfg_attract_gain = 0.005, cfg_twinkle_period = 600,
      cfg_fill = CyanTealFill 800, cfg_alpha_base = 0.4, cfg_link_dist = 120,
      cfg_link_rgb = (34, 211, 238), cfg_link_alpha = 0.3, cfg_pointer_dist = 160,
      cfg_pointer_alpha = 0.5, cfg_pointer_width = 1.5\<rparr>"

definition about_config :: fx_config where
  "about_config =
     \<lparr>cfg_height = InnerHeight, cfg_min_count = 50, cfg_max_count = 150, cfg_density = 25000,
      cfg_speed = 0.3, cfg_radius_span = 1.5, cfg_radius_min = 0.5,
      cfg_attract_radius = 120, cfg_attract_gain = 0.003, cfg_twinkle_period = 800,
      cfg_fill = CyanTealFill 1000, cfg_alpha_base = 0.3, cfg_link_dist = 100,
      cfg_link_rgb = (34, 211, 238), cfg_link_alpha = 0.2, cfg_pointer_dist = 140,
      cfg_pointer_alpha = 0.4, cfg_pointer_width = 1.5\<rparr>"

definition skills_config :: fx_config where
  "skills_config =
     \<lparr>cfg_height = InnerHeight, cfg_min_count = 50, cfg_max_count = 150, cfg_density = 25000,
      cfg_speed = 0.3, cfg_radius_span = 1.5, cfg_radius_min = 0.5,
      cfg_attract_radius = 120, cfg_attract_gain = 0.003, cfg_twinkle_period = 800,
      cfg_fill = CyanTealFill 1000, cfg_alpha_base = 0.3, cfg_link_dist = 100,
      cfg_link_rgb = (34, 211, 238), cfg_link_alpha = 0.2, cfg_pointer_dist = 140,
      cfg_pointer_alpha = 0.4, cfg_pointer_width = 1.5\<rparr>"

definition projects_config :: fx_config where
  "projects_config =
     \<lparr>cfg_height = InnerHeight, cfg_min_count = 50, cfg_max_count = 150, cfg_density = 25000,
      cfg_speed = 0.3, cfg_radius_span = 1.5, cfg_radius_min = 0.5,
      cfg_attract_radius = 120, cfg_attract_gain = 0.003, cfg_twinkle_period = 800,
      cfg_fill = CyanTealFill 1000, cfg_alpha_base = 0.3, cfg_link_dist = 100,
      cfg_link_rgb = (34, 211, 238), cfg_link_alpha = 0.2, cfg_pointer_dist = 140,
      cfg_pointer_alpha = 0.4, cfg_pointer_width = 1.5\<rparr>"

text \<open>The effect of each file, as a handler of host events.\<close>

definition bgfx_effect :: "(nat \<Rightarrow> real) \<Rightarrow> host_event \<Rightarrow> fx_sys \<Rightarrow> fx_sys" where
  "bgfx_effect = fx_event bgfx_config"

definition hero_effect :: "(nat \<Rightarrow> real) \<Rightarrow> host_event \<Rightarrow> fx_sys \<Rightarrow> fx_sys" where
  "hero_effect = fx_event hero_config"

definition about_effect :: "(nat \<Rightarrow> real) \<Rightarrow> host_event \<Rightarrow> fx_sys \<Rightarrow> fx_sys" where
  "about_effect = fx_event about_config"

definition skills_effect :: "(nat \<Rightarrow> real) \<Rightarrow> host_event \<Rightarrow> fx_sys \<Rightarrow> fx_sys" where
  "skills_effect = fx_event skills_config"

definition projects_effect :: "(nat \<Rightarrow> real) \<Rightarrow> host_event \<Rightarrow> fx_sys \<Rightarrow> fx_sys" where
  "projects_effect = fx_event projects_config"

lemmas fx_config_defs = bgfx_config_def hero_config_def about_config_def skills_config_def
  projects_config_def

lemma fx_configs_ok:
  "cfg_ok bgfx_config" "cfg_ok hero_config" "cfg_ok about_config" "cfg_ok skills_config"
  "cfg_ok projects_config"
  by (simp_all add: cfg_ok_def fx_config_defs)

lemma section_configs_equal: "skills_config = about_config" "projects_config = about_config"
  by (simp_all add: fx_config_defs)

end
