(* ===== verification/Timer_Queue.thy ===== *)
theory Timer_Queue
  imports Prelude "HOL-Library.Multiset"
begin

text \<open>
  The browser's queue of pending \<open>setTimeout\<close> callbacks, generic in the type of job.
  A timer is a pair of its due time (whole milliseconds) and its job; the queue is kept
  ordered by due time, and \<open>ins_timer\<close> puts a new timer after every pending timer due no
  later, so that timers due at the same time fire in registration order. The theory proves
  that this insertion is the stable sort of the library (\<open>sort_key\<close>), which is the
  order the HTML timer rules prescribe, and the well-formedness (\<open>queue_ok\<close>) the
  clients keep.
\<close>

definition ins_timer :: "nat \<times> 'j \<Rightarrow> (nat \<times> 'j) list \<Rightarrow> (nat \<times> 'j) list" where
  "ins_timer t ts = takeWhile (\<lambda>u. fst u \<le> fst t) ts @ t # dropWhile (\<lambda>u. fst u \<le> fst t) ts"

definition queue_ok :: "nat \<Rightarrow> (nat \<times> 'j) list \<Rightarrow> bool" where
  "queue_ok now ts \<longleftrightarrow> sorted (map fst ts) \<and> (\<forall>(d, _) \<in> set ts. now \<le> d)"

lemma set_ins_timer [simp]: "set (ins_timer t ts) = insert t (set ts)"
proof -
  have "set ts = set (takeWhile (\<lambda>u. fst u \<le> fst t) ts) \<union> set (dropWhile (\<lambda>u. fst u \<le> fst t) ts)"
    by (metis set_append takeWhile_dropWhile_id)
  then show ?thesis by (auto simp: ins_timer_def)
qed

lemma mset_ins_timer: "mset (ins_timer t ts) = mset (ts @ [t])"
proof -
  have "mset ts = mset (takeWhile (\<lambda>u. fst u \<le> fst t) ts) + mset (dropWhile (\<lambda>u. fst u \<le> fst t) ts)"
    by (metis mset_append takeWhile_dropWhile_id)
  then show ?thesis by (simp add: ins_timer_def)
qed

lemma dropWhile_sorted_gt:
  assumes "sorted (map fst ts)" "u \<in> set (dropWhile (\<lambda>u. fst u \<le> k) ts)"
  shows "k < fst u"
  using assms
proof (induction ts)
  case Nil
  then show ?case by simp
next
  case (Cons v ts)
  show ?case
  proof (cases "fst v \<le> k")
    case True
    then show ?thesis using Cons by simp
  next
    case False
    then show ?thesis using Cons.prems by auto
  qed
qed

lemma sorted_ins_timer:
  assumes "sorted (map fst ts)"
  shows "sorted (map fst (ins_timer t ts))"
proof -
  let ?P = "\<lambda>u. fst u \<le> fst t"
  let ?A = "takeWhile ?P ts" and ?B = "dropWhile ?P ts"
  have "sorted (map fst ?A @ map fst ?B)"
    using assms by (simp only: map_append [symmetric] takeWhile_dropWhile_id)
  note parts = this [unfolded sorted_append]
  have sA: "sorted (map fst ?A)" and sB: "sorted (map fst ?B)"
    and AB: "\<forall>x \<in> set (map fst ?A). \<forall>y \<in> set (map fst ?B). x \<le> y"
    using parts by simp_all
  have At: "\<forall>x \<in> set (map fst ?A). x \<le> fst t" by (auto dest: set_takeWhileD)
  have tB: "\<forall>y \<in> set (map fst ?B). fst t \<le> y"
    using dropWhile_sorted_gt [OF assms] by (auto intro: less_imp_le)
  have "sorted (fst t # map fst ?B)" using sB tB by simp
  moreover have "\<forall>x \<in> set (map fst ?A). \<forall>y \<in> set (fst t # map fst ?B). x \<le> y"
    using AB At by fastforce
  ultimately have "sorted (map fst ?A @ fst t # map fst ?B)"
    using sA by (simp only: sorted_append)
  then show ?thesis by (simp add: ins_timer_def)
qed

lemma filter_ins_timer:
  assumes "sorted (map fst ts)"
  shows "filter (\<lambda>x. fst k = fst x) (ins_timer t ts) = filter (\<lambda>x. fst k = fst x) (ts @ [t])"
proof (cases "fst k = fst t")
  case True
  let ?P = "\<lambda>u. fst u \<le> fst t"
  have "filter (\<lambda>x. fst k = fst x) (dropWhile ?P ts) = []"
    using dropWhile_sorted_gt [OF assms] True by (force simp: filter_empty_conv)
  then show ?thesis using True
    by (simp add: ins_timer_def) (metis append_Nil2 filter_append takeWhile_dropWhile_id)
next
  case False
  then show ?thesis
    by (simp add: ins_timer_def) (metis filter_append takeWhile_dropWhile_id)
qed

lemma queue_ok_ins_timer:
  "queue_ok now ts \<Longrightarrow> now \<le> fst t \<Longrightarrow> queue_ok now (ins_timer t ts)"
  by (auto simp: queue_ok_def sorted_ins_timer)

lemma queue_ok_Cons:
  "queue_ok now ((d, j) # rest) \<Longrightarrow> now \<le> d \<and> queue_ok d rest"
  by (auto simp: queue_ok_def)

lemma queue_ok_head_later:
  "queue_ok now ((d, j) # rest) \<Longrightarrow> t < d \<Longrightarrow> queue_ok t ((d, j) # rest)"
  by (fastforce simp: queue_ok_def)

theorem ins_timer_stable_sort:
  "sorted (map fst ts) \<Longrightarrow> ins_timer t ts = sort_key fst (ts @ [t])"
  by (rule properties_for_sort_key [symmetric])
     (simp_all add: mset_ins_timer filter_ins_timer sorted_ins_timer)

end
