(* ===== verification/Contact_Form.thy ===== *)
theory Contact_Form
  imports Timer_Queue
begin

text \<open>
  The contact form of src/src/components/Contact.tsx. Its state is the \<open>formData\<close>
  record and the \<open>isSubmitted\<close> flag; \<open>handleChange\<close> writes one field,
  \<open>handleSubmit\<close> starts two chained \<open>setTimeout\<close>s: after 1000 ms the success
  message is shown, 3000 ms later it is hidden and the form is cleared. The form (and so
  its inputs and its submit button) is rendered only while \<open>isSubmitted\<close> is false, and
  the browser fires \<open>submit\<close> only when the \<open>required\<close> fields are filled and the
  e-mail field passes its type check (an abstract predicate of the model). The browser's
  timer queue is explicit: pending timers ordered by due time, equal due times in
  registration order; time is in whole milliseconds.
\<close>

record form_data =
  fd_name :: string
  fd_email :: string
  fd_subject :: string
  fd_message :: string

datatype form_field = FName | FEmail | FSubject | FMessage

definition empty_form :: form_data where
  "empty_form = \<lparr>fd_name = [], fd_email = [], fd_subject = [], fd_message = []\<rparr>"

text \<open>\<open>setFormData({...formData, [e.target.name]: e.target.value})\<close>\<close>

fun set_field :: "form_field \<Rightarrow> string \<Rightarrow> form_data \<Rightarrow> form_data" where
  "set_field FName v f = f\<lparr>fd_name := v\<rparr>"
| "set_field FEmail v f = f\<lparr>fd_email := v\<rparr>"
| "set_field FSubject v f = f\<lparr>fd_subject := v\<rparr>"
| "set_field FMessage v f = f\<lparr>fd_message := v\<rparr>"

text \<open>The jobs in the browser's timer queue that touch the contact form: the two callbacks
  of \<open>handleSubmit\<close>, and the callback the "Demo" button of
  src/src/components/Projects.tsx sets, which focuses the form's \<open>name\<close> input.\<close>

datatype timer_job = ShowSent | ResetForm | FocusName

record contact_state =
  cs_form :: form_data
  cs_submitted :: bool
  cs_now :: nat
  cs_timers :: "(nat \<times> timer_job) list"
  cs_focus :: "string option"

definition contact_init :: contact_state where
  "contact_init = \<lparr>cs_form = empty_form, cs_submitted = False, cs_now = 0, cs_timers = [],
                    cs_focus = None\<rparr>"

text \<open>\<open>setTimeout(job, delay)\<close>, with the queue of Timer_Queue.\<close>

definition set_timeout :: "nat \<Rightarrow> timer_job \<Rightarrow> contact_state \<Rightarrow> contact_state" where
  "set_timeout d j s = s\<lparr>cs_timers := ins_timer (cs_now s + d, j) (cs_timers s)\<rparr>"

text \<open>The two timer callbacks of \<open>handleSubmit\<close>, and the demo button's
  \<open>document.getElementById('name')?.focus()\<close>: the input exists only while the form is
  rendered (\<open>!isSubmitted\<close>); otherwise the lookup gives \<open>null\<close> and nothing happens.\<close>

fun run_job :: "timer_job \<Rightarrow> contact_state \<Rightarrow> contact_state" where
  "run_job ShowSent s = set_timeout 3000 ResetForm (s\<lparr>cs_submitted := True\<rparr>)"
| "run_job ResetForm s = s\<lparr>cs_submitted := False, cs_form := empty_form\<rparr>"
| "run_job FocusName s = (if cs_submitted s then s else s\<lparr>cs_focus := Some ''name''\<rparr>)"

text \<open>The browser fires every timer due up to time \<open>t\<close>, earliest first; a timer a
  callback sets is fired in the same call if it falls due by \<open>t\<close>.\<close>

fun job_weight :: "timer_job \<Rightarrow> nat" where
  "job_weight ShowSent = 2"
| "job_weight ResetForm = 1"
| "job_weight FocusName = 1"

definition timers_weight :: "(nat \<times> timer_job) list \<Rightarrow> nat" where
  "timers_weight ts = sum_list (map (job_weight \<circ> snd) ts)"

function advance_to :: "nat \<Rightarrow> contact_state \<Rightarrow> contact_state" where
  "advance_to t s =
     (case cs_timers s of
        [] \<Rightarrow> s\<lparr>cs_now := t\<rparr>
      | (d, j) # rest \<Rightarrow>
          (if d \<le> t then advance_to t (run_job j (s\<lparr>cs_now := d, cs_timers := rest\<rparr>))
           else s\<lparr>cs_now := t\<rparr>))"
  by pat_completeness auto

lemma timers_weight_Cons [simp]: "timers_weight (x # xs) = job_weight (snd x) + timers_weight xs"
  by (simp add: timers_weight_def)

lemma timers_weight_ins [simp]: "timers_weight (ins_timer t ts) = job_weight (snd t) + timers_weight ts"
proof -
  have "timers_weight ts = timers_weight (takeWhile (\<lambda>u. fst u \<le> fst t) ts)
                          + timers_weight (dropWhile (\<lambda>u. fst u \<le> fst t) ts)"
    unfolding timers_weight_def by (metis map_append sum_list_append takeWhile_dropWhile_id)
  then show ?thesis by (simp add: ins_timer_def timers_weight_def)
qed

lemma run_job_weight:
  "timers_weight (cs_timers (run_job j (s\<lparr>cs_now := d, cs_timers := rest\<rparr>)))
   < job_weight j + timers_weight rest"
  by (cases j) (simp_all add: set_timeout_def)

termination advance_to
  by (relation "measure (\<lambda>(t, s). timers_weight (cs_timers s))") (auto simp: run_job_weight)

declare advance_to.simps [simp del]

text \<open>The browser's constraint validation before \<open>submit\<close>: the four fields are
  \<open>required\<close>; \<open>email_ok\<close> stands for the \<open>type="email"\<close> check.\<close>

definition form_valid :: "(string \<Rightarrow> bool) \<Rightarrow> form_data \<Rightarrow> bool" where
  "form_valid email_ok f \<longleftrightarrow>
     fd_name f \<noteq> [] \<and> fd_email f \<noteq> [] \<and> email_ok (fd_email f) \<and> fd_subject f \<noteq> []
     \<and> fd_message f \<noteq> []"

text \<open>The \<open>value\<close> each controlled input renders, \<open>value={formData.name}\<close> and so on.\<close>

fun field_value :: "form_field \<Rightarrow> form_data \<Rightarrow> string" where
  "field_value FName f = fd_name f"
| "field_value FEmail f = fd_email f"
| "field_value FSubject f = fd_subject f"
| "field_value FMessage f = fd_message f"

datatype contact_event = Change form_field string | Submit | Elapse nat | DemoClick

text \<open>One user or clock event. Inputs and the submit button exist only while the form
  is shown (\<open>!isSubmitted\<close>). A click on a project's "Demo" button scrolls to the
  contact section (not modelled: it changes no state here) and sets an 800 ms timer.\<close>

fun contact_step :: "(string \<Rightarrow> bool) \<Rightarrow> contact_event \<Rightarrow> contact_state \<Rightarrow> contact_state" where
  "contact_step ok (Change fld v) s =
     (if cs_submitted s then s else s\<lparr>cs_form := set_field fld v (cs_form s)\<rparr>)"
| "contact_step ok Submit s =
     (if cs_submitted s \<or> \<not> form_valid ok (cs_form s) then s else set_timeout 1000 ShowSent s)"
| "contact_step ok (Elapse d) s = advance_to (cs_now s + d) s"
| "contact_step ok DemoClick s = set_timeout 800 FocusName s"

fun contact_run :: "(string \<Rightarrow> bool) \<Rightarrow> contact_event list \<Rightarrow> contact_state \<Rightarrow> contact_state" where
  "contact_run ok [] s = s"
| "contact_run ok (e # es) s = contact_run ok es (contact_step ok e s)"

subsection \<open>Invariant of the timer queue\<close>

text \<open>How long after its due time a pending job may still cause work: a \<open>ShowSent\<close> job
  schedules the reset 3000 ms after it runs.\<close>

fun job_slack :: "timer_job \<Rightarrow> nat" where
  "job_slack ShowSent = 3000"
| "job_slack ResetForm = 0"
| "job_slack FocusName = 0"

definition timers_settle_by :: "nat \<Rightarrow> contact_state \<Rightarrow> bool" where
  "timers_settle_by t s \<longleftrightarrow> (\<forall>(d, j) \<in> set (cs_timers s). d + job_slack j \<le> t)"

definition reset_pending :: "contact_state \<Rightarrow> bool" where
  "reset_pending s \<longleftrightarrow> (cs_submitted s \<longrightarrow> (\<exists>d. (d, ResetForm) \<in> set (cs_timers s)))"

definition contact_inv :: "contact_state \<Rightarrow> bool" where
  "contact_inv s \<longleftrightarrow> timers_settle_by (cs_now s + 4000) s \<and> reset_pending s"

inductive contact_reachable :: "(string \<Rightarrow> bool) \<Rightarrow> contact_state \<Rightarrow> bool" for ok where
  init: "contact_reachable ok contact_init"
| step: "contact_reachable ok s \<Longrightarrow> contact_reachable ok (contact_step ok e s)"

text \<open>A filled-in form and the four change events that type it, used to run the model.\<close>

definition filled_form :: form_data where
  "filled_form = \<lparr>fd_name = ''Ann'', fd_email = ''ann@example.org'', fd_subject = ''Hello'',
                  fd_message = ''A question''\<rparr>"

definition fill_events :: "contact_event list" where
  "fill_events = [Change FName ''Ann'', Change FEmail ''ann@example.org'', Change FSubject ''Hello'',
                  Change FMessage ''A question'']"

subsection \<open>The timer loop\<close>

lemma advance_to_idle: "cs_timers s = [] \<Longrightarrow> advance_to t s = s\<lparr>cs_now := t\<rparr>"
  by (simp add: advance_to.simps)

lemma advance_to_early: "cs_timers s = (d, j) # rest \<Longrightarrow> t < d \<Longrightarrow> advance_to t s = s\<lparr>cs_now := t\<rparr>"
  by (simp add: advance_to.simps)

lemma advance_to_fire:
  "cs_timers s = (d, j) # rest \<Longrightarrow> d \<le> t \<Longrightarrow>
   advance_to t s = advance_to t (run_job j (s\<lparr>cs_now := d, cs_timers := rest\<rparr>))"
  by (simp add: advance_to.simps)

lemma advance_to_now: "cs_now (advance_to t s) = t"
  by (induction t s rule: advance_to.induct) (auto simp: advance_to.simps split: list.split)

lemma advance_to_settles:
  "timers_settle_by t s \<Longrightarrow> cs_timers (advance_to t s) = []"
proof (induction t s rule: advance_to.induct)
  case (1 t s)
  show ?case
  proof (cases "cs_timers s")
    case Nil
    then show ?thesis by (simp add: advance_to_idle)
  next
    case (Cons x rest)
    obtain d j where x: "x = (d, j)" by fastforce
    have le: "d \<le> t" "\<forall>(d, j) \<in> set rest. d + job_slack j \<le> t" and js: "d + job_slack j \<le> t"
      using "1.prems" Cons x by (auto simp: timers_settle_by_def)
    have "timers_settle_by t (run_job j (s\<lparr>cs_now := d, cs_timers := rest\<rparr>))"
      using le js by (cases j) (auto simp: timers_settle_by_def set_timeout_def)
    then show ?thesis using "1.IH" [OF Cons x [symmetric] le(1)] Cons x le(1) by (simp add: advance_to_fire)
  qed
qed

lemma advance_to_bound:
  "timers_settle_by (t + 4000) s \<Longrightarrow> timers_settle_by (t + 4000) (advance_to t s)"
proof (induction t s rule: advance_to.induct)
  case (1 t s)
  show ?case
  proof (cases "cs_timers s")
    case Nil
    then show ?thesis by (simp add: advance_to_idle timers_settle_by_def)
  next
    case (Cons x rest)
    obtain d j where x: "x = (d, j)" by fastforce
    show ?thesis
    proof (cases "d \<le> t")
      case True
      have "timers_settle_by (t + 4000) (run_job j (s\<lparr>cs_now := d, cs_timers := rest\<rparr>))"
        using "1.prems" Cons x True by (cases j) (auto simp: timers_settle_by_def set_timeout_def)
      then show ?thesis using "1.IH" [OF Cons x [symmetric] True] Cons x True by (simp add: advance_to_fire)
    next
      case False
      then show ?thesis using "1.prems" Cons x by (simp add: advance_to_early timers_settle_by_def)
    qed
  qed
qed

lemma advance_to_reset_pending:
  "reset_pending s \<Longrightarrow> reset_pending (advance_to t s)"
proof (induction t s rule: advance_to.induct)
  case (1 t s)
  show ?case
  proof (cases "cs_timers s")
    case Nil
    then show ?thesis using "1.prems" by (simp add: advance_to_idle reset_pending_def)
  next
    case (Cons x rest)
    obtain d j where x: "x = (d, j)" by fastforce
    show ?thesis
    proof (cases "d \<le> t")
      case True
      have "reset_pending (run_job j (s\<lparr>cs_now := d, cs_timers := rest\<rparr>))"
        using "1.prems" Cons x by (cases j) (auto simp: reset_pending_def set_timeout_def)
      then show ?thesis using "1.IH" [OF Cons x [symmetric] True] Cons x True by (simp add: advance_to_fire)
    next
      case False
      then show ?thesis using "1.prems" Cons x by (simp add: advance_to_early reset_pending_def)
    qed
  qed
qed

lemma advance_to_keeps_empty:
  "cs_form s = empty_form \<Longrightarrow> cs_form (advance_to t s) = empty_form"
proof (induction t s rule: advance_to.induct)
  case (1 t s)
  show ?case
  proof (cases "cs_timers s")
    case Nil
    then show ?thesis using "1.prems" by (simp add: advance_to_idle)
  next
    case (Cons x rest)
    obtain d j where x: "x = (d, j)" by fastforce
    show ?thesis
    proof (cases "d \<le> t")
      case True
      have "cs_form (run_job j (s\<lparr>cs_now := d, cs_timers := rest\<rparr>)) = empty_form"
        using "1.prems" by (cases j) (auto simp: set_timeout_def)
      then show ?thesis using "1.IH" [OF Cons x [symmetric] True] Cons x True by (simp add: advance_to_fire)
    next
      case False
      then show ?thesis using "1.prems" Cons x by (simp add: advance_to_early)
    qed
  qed
qed

text \<open>Every pending job ends in a reset: if the queue settles by \<open>t\<close> and is not
  empty, the form is empty at \<open>t\<close>.\<close>

lemma advance_to_clears:
  "timers_settle_by t s \<Longrightarrow> (r, j0) \<in> set (cs_timers s) \<Longrightarrow> j0 \<noteq> FocusName \<Longrightarrow>
   cs_form (advance_to t s) = empty_form"
proof (induction t s arbitrary: r j0 rule: advance_to.induct)
  case (1 t s)
  obtain x rest where Cons: "cs_timers s = x # rest" using "1.prems"(2) by (cases "cs_timers s") auto
  obtain d j where x: "x = (d, j)" by fastforce
  have le: "d \<le> t" "\<forall>(d, j) \<in> set rest. d + job_slack j \<le> t" and js: "d + job_slack j \<le> t"
    using "1.prems"(1) Cons x by (auto simp: timers_settle_by_def)
  let ?s' = "run_job j (s\<lparr>cs_now := d, cs_timers := rest\<rparr>)"
  have st: "timers_settle_by t ?s'"
    using le js by (cases j) (auto simp: timers_settle_by_def set_timeout_def)
  have "cs_form (advance_to t ?s') = empty_form"
  proof (cases j)
    case ResetForm
    then show ?thesis by (simp add: advance_to_keeps_empty)
  next
    case ShowSent
    then have "(d + 3000, ResetForm) \<in> set (cs_timers ?s')" by (simp add: set_timeout_def)
    then show ?thesis using "1.IH" [OF Cons x [symmetric] le(1) st] by blast
  next
    case FocusName
    then have "(r, j0) \<in> set (cs_timers ?s')" using "1.prems"(2,3) Cons x by auto
    then show ?thesis using "1.IH" [OF Cons x [symmetric] le(1) st] "1.prems"(3) by blast
  qed
  then show ?case using Cons x le(1) by (simp add: advance_to_fire)
qed

subsection \<open>The invariant holds in every reachable state\<close>

lemma contact_inv_init: "contact_inv contact_init"
  by (simp add: contact_inv_def contact_init_def timers_settle_by_def reset_pending_def)

lemma timers_settle_by_mono: "timers_settle_by t s \<Longrightarrow> t \<le> t' \<Longrightarrow> timers_settle_by t' s"
  by (fastforce simp: timers_settle_by_def)

lemma contact_step_inv: "contact_inv s \<Longrightarrow> contact_inv (contact_step ok e s)"
proof (cases e)
  case (Elapse d)
  assume i: "contact_inv s"
  then have "timers_settle_by (cs_now s + d + 4000) s"
    by (auto simp: contact_inv_def intro: timers_settle_by_mono)
  then show ?thesis using i Elapse
    by (simp add: contact_inv_def advance_to_bound advance_to_reset_pending advance_to_now)
qed (auto simp: contact_inv_def timers_settle_by_def reset_pending_def set_timeout_def)

lemma contact_reachable_inv: "contact_reachable ok s \<Longrightarrow> contact_inv s"
  by (induction rule: contact_reachable.induct) (simp_all add: contact_inv_init contact_step_inv)

lemma contact_run_reachable:
  "contact_reachable ok s \<Longrightarrow> contact_reachable ok (contact_run ok es s)"
  by (induction es arbitrary: s) (simp_all add: contact_reachable.step)


lemma fill_events_run: "contact_run ok fill_events contact_init = contact_init\<lparr>cs_form := filled_form\<rparr>"
  by (simp add: fill_events_def filled_form_def contact_init_def empty_form_def)

lemma contact_run_append: "contact_run ok (xs @ ys) s = contact_run ok ys (contact_run ok xs s)"
  by (induction xs arbitrary: s) simp_all

subsection \<open>Well-formedness of the queue\<close>

lemma run_job_now: "cs_now (run_job j s) = cs_now s"
  by (cases j) (simp_all add: set_timeout_def)

lemma run_job_queue_ok:
  "queue_ok (cs_now s) (cs_timers s) \<Longrightarrow> queue_ok (cs_now s) (cs_timers (run_job j s))"
  by (cases j) (simp_all add: set_timeout_def queue_ok_ins_timer)

lemma advance_to_queue_ok:
  "queue_ok (cs_now s) (cs_timers s) \<Longrightarrow> queue_ok t (cs_timers (advance_to t s))"
proof (induction t s rule: advance_to.induct)
  case (1 t s)
  show ?case
  proof (cases "cs_timers s")
    case Nil
    then show ?thesis by (simp add: advance_to_idle queue_ok_def)
  next
    case (Cons x rest)
    obtain d j where x: "x = (d, j)" by fastforce
    have q: "queue_ok d rest" using "1.prems" Cons x queue_ok_Cons by fastforce
    show ?thesis
    proof (cases "d \<le> t")
      case True
      have "queue_ok d (cs_timers (run_job j (s\<lparr>cs_now := d, cs_timers := rest\<rparr>)))"
        using run_job_queue_ok [of "s\<lparr>cs_now := d, cs_timers := rest\<rparr>" j] q by simp
      then show ?thesis using "1.IH" [OF Cons x [symmetric] True] Cons x True
        by (simp add: advance_to_fire run_job_now)
    next
      case False
      then have "queue_ok t (cs_timers s)"
        using queue_ok_head_later [of "cs_now s" d j rest t] "1.prems" Cons x by simp
      then show ?thesis using False Cons x by (simp add: advance_to_early)
    qed
  qed
qed

lemma contact_step_queue_ok:
  "queue_ok (cs_now s) (cs_timers s) \<Longrightarrow> queue_ok (cs_now (contact_step ok e s)) (cs_timers (contact_step ok e s))"
  by (cases e) (simp_all add: advance_to_queue_ok advance_to_now set_timeout_def queue_ok_ins_timer)

end
