(* ===== verification/Contact_Props.thy ===== *)
theory Contact_Props
  imports Contact_Form
begin

text \<open>
  The properties of the contact form of Contact_Form, each with the run of the model that
  witnesses it: the timeline of one submission, the settling of every reachable state,
  the erasing of later input by a double submit, the focus of the name input by the "Demo"
  button of Projects.tsx, and the well-formedness of the browser's timer queue with its
  refinement of the HTML timer ordering.
\<close>

subsection \<open>Behaviour of a submission\<close>

text \<open>C14: A valid submission from the idle form shows nothing for the first 1000 ms,
  shows the success message from 1000 ms to just before 4000 ms after the submit, and
  from 4000 ms on shows the form again, emptied, with no timer pending.\<close>

theorem submit_timeline:
  assumes "cs_timers s = []" "\<not> cs_submitted s" "form_valid ok (cs_form s)"
  shows "contact_step ok (Elapse d) (contact_step ok Submit s) =
           (if d < 1000 then s\<lparr>cs_now := cs_now s + d, cs_timers := [(cs_now s + 1000, ShowSent)]\<rparr>
            else if d < 4000 then s\<lparr>cs_now := cs_now s + d, cs_submitted := True,
                                    cs_timers := [(cs_now s + 4000, ResetForm)]\<rparr>
            else s\<lparr>cs_now := cs_now s + d, cs_form := empty_form\<rparr>)"
proof -
  have sub: "contact_step ok Submit s = s\<lparr>cs_timers := [(cs_now s + 1000, ShowSent)]\<rparr>"
    using assms by (simp add: set_timeout_def ins_timer_def)
  show ?thesis
  proof (cases "d < 1000")
    case True
    then show ?thesis using sub by (simp add: advance_to_early)
  next
    case False
    let ?s1 = "s\<lparr>cs_now := cs_now s + 1000, cs_submitted := True,
                 cs_timers := [(cs_now s + 4000, ResetForm)]\<rparr>"
    have fire1: "contact_step ok (Elapse d) (contact_step ok Submit s) = advance_to (cs_now s + d) ?s1"
      using sub False assms(1) by (simp add: advance_to_fire set_timeout_def ins_timer_def add.commute)
    show ?thesis
    proof (cases "d < 4000")
      case True
      then show ?thesis using fire1 False by (simp add: advance_to_early)
    next
      case False
      have "advance_to (cs_now s + d) ?s1
            = advance_to (cs_now s + d) (?s1\<lparr>cs_now := cs_now s + 4000, cs_timers := [],
                                          cs_submitted := False, cs_form := empty_form\<rparr>)"
        using False by (simp add: advance_to_fire)
      also have "\<dots> = s\<lparr>cs_now := cs_now s + d, cs_form := empty_form\<rparr>"
        using assms(1,2) by (cases s) (simp add: advance_to_idle)
      finally show ?thesis using fire1 \<open>\<not> d < 1000\<close> False by simp
    qed
  qed
qed

lemma submit_timeline_witness:
  "cs_timers (contact_init\<lparr>cs_form := filled_form\<rparr>) = [] \<and> \<not> cs_submitted (contact_init\<lparr>cs_form := filled_form\<rparr>)
   \<and> form_valid (\<lambda>_. True) (cs_form (contact_init\<lparr>cs_form := filled_form\<rparr>))
   \<and> cs_submitted (contact_step (\<lambda>_. True) (Elapse 2500)
        (contact_step (\<lambda>_. True) Submit (contact_init\<lparr>cs_form := filled_form\<rparr>)))"
  using submit_timeline [of "contact_init\<lparr>cs_form := filled_form\<rparr>" "\<lambda>_. True" 2500]
  by (simp add: contact_init_def filled_form_def form_valid_def)

text \<open>C15: From every reachable state of the form, 4000 ms later no timer is pending and
  the success message is hidden; if a timer of \<open>handleSubmit\<close> was pending the form has
  been emptied.\<close>

theorem reachable_settles_within_4s:
  assumes "contact_reachable ok s"
  shows "cs_timers (contact_step ok (Elapse 4000) s) = []
         \<and> \<not> cs_submitted (contact_step ok (Elapse 4000) s)
         \<and> ((\<exists>(d, j) \<in> set (cs_timers s). j \<noteq> FocusName)
              \<longrightarrow> cs_form (contact_step ok (Elapse 4000) s) = empty_form)"
proof -
  have i: "contact_inv s" using assms by (rule contact_reachable_inv)
  then have st: "timers_settle_by (cs_now s + 4000) s" by (simp add: contact_inv_def)
  have e: "cs_timers (contact_step ok (Elapse 4000) s) = []"
    using advance_to_settles [OF st] by simp
  have "reset_pending (contact_step ok (Elapse 4000) s)"
    using contact_step_inv [of s ok "Elapse 4000", OF i] by (simp add: contact_inv_def)
  then have "\<not> cs_submitted (contact_step ok (Elapse 4000) s)"
    using e by (simp add: reset_pending_def)
  moreover have "(\<exists>(d, j) \<in> set (cs_timers s). j \<noteq> FocusName)
                 \<longrightarrow> cs_form (contact_step ok (Elapse 4000) s) = empty_form"
    using advance_to_clears [OF st] by auto
  ultimately show ?thesis using e by simp
qed

lemma reachable_settles_within_4s_witness:
  "contact_reachable (\<lambda>_. True) (contact_run (\<lambda>_. True) (fill_events @ [Submit, Elapse 1500]) contact_init)
   \<and> cs_form (contact_step (\<lambda>_. True) (Elapse 4000)
        (contact_run (\<lambda>_. True) (fill_events @ [Submit, Elapse 1500]) contact_init)) = empty_form"
proof -
  have r: "contact_reachable (\<lambda>_. True) (contact_run (\<lambda>_. True) (fill_events @ [Submit, Elapse 1500]) contact_init)"
    by (rule contact_run_reachable [OF contact_reachable.init])
  have ne: "\<exists>(d, j) \<in> set (cs_timers (contact_run (\<lambda>_. True) (fill_events @ [Submit, Elapse 1500])
                                              contact_init)). j \<noteq> FocusName"
    unfolding contact_run_append fill_events_run
    by (simp add: set_timeout_def ins_timer_def contact_init_def filled_form_def
        form_valid_def advance_to.simps)
  show ?thesis using reachable_settles_within_4s [OF r] r ne by blast
qed

text \<open>C16: \<open>handleSubmit\<close> does not guard against a second submission while the first
  is pending. From any idle state with a valid form, submitting twice \<open>g\<close> ms apart
  (0 < g < 1000, before the success message hides the form) schedules two resets: 4000 ms
  after the first submit the form is shown again with the second reset still pending, and
  whatever is typed into any input then is erased by that reset \<open>g\<close> ms later.\<close>

theorem double_submit_erases_later_input:
  assumes "cs_timers s = []" "\<not> cs_submitted s" "form_valid ok (cs_form s)" "0 < g" "g < 1000"
  shows "let s' = contact_run ok [Submit, Elapse g, Submit, Elapse (4000 - g), Change f v] s
         in \<not> cs_submitted s' \<and> cs_timers s' = [(cs_now s + g + 4000, ResetForm)]
            \<and> field_value f (cs_form s') = v
            \<and> cs_form (contact_step ok (Elapse g) s') = empty_form"
proof -
  let ?t = "cs_now s"
  have a: "contact_run ok [Submit, Elapse g, Submit] s
             = s\<lparr>cs_now := ?t + g, cs_timers := [(?t + 1000, ShowSent), (?t + g + 1000, ShowSent)]\<rparr>"
    using assms by (simp add: set_timeout_def ins_timer_def advance_to_early)
  have b: "contact_step ok (Elapse (4000 - g))
             (s\<lparr>cs_now := ?t + g, cs_timers := [(?t + 1000, ShowSent), (?t + g + 1000, ShowSent)]\<rparr>)
           = s\<lparr>cs_now := ?t + 4000, cs_form := empty_form, cs_timers := [(?t + g + 4000, ResetForm)]\<rparr>"
    using assms(2,4,5) by (simp add: advance_to_fire advance_to_early set_timeout_def ins_timer_def)
  have "contact_run ok [Submit, Elapse g, Submit, Elapse (4000 - g), Change f v] s
          = s\<lparr>cs_now := ?t + 4000, cs_form := set_field f v empty_form,
              cs_timers := [(?t + g + 4000, ResetForm)]\<rparr>"
    using a b assms(2) by (simp add: contact_run_append [of ok "[Submit, Elapse g, Submit]", simplified])
  then show ?thesis using assms(2)
    by (cases f) (simp_all add: advance_to_fire advance_to_idle)
qed

lemma double_submit_erases_later_input_witness:
  "cs_timers (contact_init\<lparr>cs_form := filled_form\<rparr>) = [] \<and> \<not> cs_submitted (contact_init\<lparr>cs_form := filled_form\<rparr>)
   \<and> form_valid (\<lambda>_. True) (cs_form (contact_init\<lparr>cs_form := filled_form\<rparr>))
   \<and> fd_name (cs_form (contact_run (\<lambda>_. True) [Submit, Elapse 500, Submit, Elapse 3500, Change FName ''Bob'']
        (contact_init\<lparr>cs_form := filled_form\<rparr>))) = ''Bob''
   \<and> cs_form (contact_step (\<lambda>_. True) (Elapse 500)
        (contact_run (\<lambda>_. True) [Submit, Elapse 500, Submit, Elapse 3500, Change FName ''Bob'']
           (contact_init\<lparr>cs_form := filled_form\<rparr>))) = empty_form"
  using double_submit_erases_later_input [of "contact_init\<lparr>cs_form := filled_form\<rparr>" "\<lambda>_. True" 500 FName "''Bob''"]
  by (simp add: contact_init_def filled_form_def form_valid_def Let_def)

subsection \<open>The demo button\<close>

text \<open>C21: The "Demo" button of a project focuses the contact form's name input 800 ms
  later exactly when the form is rendered at that time; while the success message is shown
  the lookup of the input gives \<open>null\<close> and the focus is silently dropped.\<close>

theorem demo_focus_iff_form_shown:
  assumes "\<forall>(d, j) \<in> set (cs_timers s). cs_now s + 800 < d"
  shows "cs_focus (contact_step ok (Elapse 800) (contact_step ok DemoClick s))
         = (if cs_submitted s then cs_focus s else Some ''name'')"
proof -
  have tw: "takeWhile (\<lambda>u. fst u \<le> cs_now s + 800) (cs_timers s) = []"
    and dw: "dropWhile (\<lambda>u. fst u \<le> cs_now s + 800) (cs_timers s) = cs_timers s"
    using assms by (auto simp: takeWhile_eq_Nil_iff dropWhile_eq_self_iff neq_Nil_conv)
  let ?s1 = "run_job FocusName (s\<lparr>cs_now := cs_now s + 800\<rparr>)"
  have "contact_step ok (Elapse 800) (contact_step ok DemoClick s) = advance_to (cs_now s + 800) ?s1"
    using tw dw by (simp add: set_timeout_def ins_timer_def advance_to_fire)
  also have "\<dots> = ?s1\<lparr>cs_now := cs_now s + 800\<rparr>"
  proof (cases "cs_timers s")
    case Nil
    then show ?thesis by (simp add: advance_to_idle)
  next
    case (Cons x rest)
    then show ?thesis using assms by (cases x) (simp add: advance_to_early)
  qed
  finally show ?thesis by simp
qed

lemma demo_focus_iff_form_shown_witness:
  "cs_timers (contact_run (\<lambda>_. True) (fill_events @ [Submit, Elapse 1000]) contact_init) = [(4000, ResetForm)]
   \<and> cs_now (contact_run (\<lambda>_. True) (fill_events @ [Submit, Elapse 1000]) contact_init) = 1000
   \<and> cs_focus (contact_step (\<lambda>_. True) (Elapse 800) (contact_step (\<lambda>_. True) DemoClick
        (contact_run (\<lambda>_. True) (fill_events @ [Submit, Elapse 1000]) contact_init))) = None"
proof -
  have q: "contact_run (\<lambda>_. True) (fill_events @ [Submit, Elapse 1000]) contact_init
           = contact_init\<lparr>cs_form := filled_form, cs_submitted := True, cs_now := 1000,
                          cs_timers := [(4000, ResetForm)]\<rparr>"
    unfolding contact_run_append fill_events_run
    by (simp add: set_timeout_def ins_timer_def contact_init_def filled_form_def form_valid_def
        advance_to.simps)
  show ?thesis
    using demo_focus_iff_form_shown [of "contact_run (\<lambda>_. True) (fill_events @ [Submit, Elapse 1000]) contact_init"
        "\<lambda>_. True"]
    unfolding q by (simp add: contact_init_def)
qed

subsection \<open>The browser's timer queue\<close>

text \<open>The queue of the model behaves as the HTML timer rules require.\<close>

text \<open>In every reachable state the timer queue is well formed: ordered by due time,
  and no pending timer is due before the current time.\<close>

lemma reachable_queue_ok:
  "contact_reachable ok s \<Longrightarrow> queue_ok (cs_now s) (cs_timers s)"
proof (induction rule: contact_reachable.induct)
  case init
  then show ?case by (simp add: contact_init_def queue_ok_def)
next
  case (step s e)
  then show ?case using contact_step_queue_ok by blast
qed

text \<open>In every reachable state, \<open>setTimeout\<close> leaves the queue equal to the
  stable sort by due time of the pending timers in registration order, which is the order
  in which the HTML timer rules fire them (equal due times in registration order).\<close>

lemma set_timeout_is_stable_sort:
  "contact_reachable ok s \<Longrightarrow>
   cs_timers (set_timeout d j s) = sort_key fst (cs_timers s @ [(cs_now s + d, j)])"
  using reachable_queue_ok [of ok s] by (simp add: set_timeout_def queue_ok_def ins_timer_stable_sort)

end
