(* ===== verification/Projects_Data.thy ===== *)
theory Projects_Data
  imports Contact_Form
begin

text \<open>
  The data-driven part of src/src/components/Projects.tsx: the entries of
  \<open>projectsData\<close> (their id, title, technologies and the two URLs; the description, the
  JSX icon and the feature list are markup and text, not modelled), \<open>getTechIcon\<close>, which
  picks the icon of a technology by its lower-cased name, and the action buttons of a
  project card. The "Demo" button does not open \<open>demoUrl\<close>: it is the \<open>DemoClick\<close>
  event of Contact_Form (scroll to the contact section, focus its name input 800 ms
  later). The GitHub link always opens \<open>GITHUB_PROFILE\<close>. \<open>toLowerCase\<close> is modelled on
  ASCII letters, which is all the data contains.
\<close>

record project =
  pj_id :: nat
  pj_title :: string
  pj_technologies :: "string list"
  pj_demo_url :: string
  pj_github_url :: string

definition github_profile :: string where
  "github_profile = ''https://github.com/Mar11wane-git''"

definition projects_data :: "project list" where
  "projects_data =
     [\<lparr>pj_id = 1, pj_title = ''GoalTime'',
       pj_technologies = [''React'', ''Laravel'', ''MySQL'', ''CSS'', ''TypeScript''],
       pj_demo_url = ''https://football-reservation.example.com'',
       pj_github_url = ''https://github.com/username/football-reservation''\<rparr>,
      \<lparr>pj_id = 2, pj_title = ''Gestion-RH'',
       pj_technologies = [''React'', ''TypeScript'', ''MySQL'', ''Laravel'', ''Redux'', ''TailwindCSS''],
       pj_demo_url = ''https://hrms-system.example.com'',
       pj_github_url = ''https://github.com/username/hrms-system''\<rparr>,
      \<lparr>pj_id = 3, pj_title = ''StoreHub'',
       pj_technologies = [''React'', ''HTML'', ''CSS''],
       pj_demo_url = ''https://storehub-demo.example.com'',
       pj_github_url = ''https://github.com/username/storehub''\<rparr>]"

text \<open>\<open>String.prototype.toLowerCase\<close> on ASCII: upper-case letters move by 32.\<close>

definition js_lower_char :: "char \<Rightarrow> char" where
  "js_lower_char c =
     (let n = (of_char c :: nat) in if 65 \<le> n \<and> n \<le> 90 then char_of (n + 32) else c)"

definition js_to_lower :: "string \<Rightarrow> string" where
  "js_to_lower s = map js_lower_char s"

datatype tech_icon = ReactIcon | LaravelIcon | MySQLIcon | TailwindIcon | FileTextIcon
  | SmartphoneIcon | DatabaseIcon | TerminalIcon

definition get_tech_icon :: "string \<Rightarrow> tech_icon" where
  "get_tech_icon tech =
     (let t = js_to_lower tech
      in if t = ''react'' then ReactIcon
         else if t = ''laravel'' then LaravelIcon
         else if t = ''mysql'' then MySQLIcon
         else if t = ''tailwindcss'' then TailwindIcon
         else if t = ''typescript'' then FileTextIcon
         else if t = ''css'' then SmartphoneIcon
         else if t = ''redux'' then DatabaseIcon
         else TerminalIcon)"

datatype project_action = DemoButton | GithubLink string

text \<open>The buttons of a card: \<open>{project.demoUrl && ...}\<close> and
  \<open>{project.githubUrl && ...}\<close>, an empty string being falsy.\<close>

definition project_actions :: "project \<Rightarrow> project_action list" where
  "project_actions p =
     (if pj_demo_url p \<noteq> [] then [DemoButton] else [])
     @ (if pj_github_url p \<noteq> [] then [GithubLink github_profile] else [])"

fun action_event :: "project_action \<Rightarrow> contact_event option" where
  "action_event DemoButton = Some DemoClick"
| "action_event (GithubLink _) = None"

subsection \<open>Lemmas\<close>




text \<open>The badges of the three projects: "HTML", for which \<open>getTechIcon\<close> has no case,
  falls back to the generic terminal icon.\<close>

lemma project_tech_icons:
  "map (map get_tech_icon \<circ> pj_technologies) projects_data =
     [[ReactIcon, LaravelIcon, MySQLIcon, SmartphoneIcon, FileTextIcon],
      [ReactIcon, FileTextIcon, MySQLIcon, LaravelIcon, DatabaseIcon, TailwindIcon],
      [ReactIcon, TerminalIcon, SmartphoneIcon]]"
  by code_simp

text \<open>Every card of \<open>projectsData\<close> has both buttons, and the profile the GitHub link
  opens is none of the projects' \<open>githubUrl\<close>s.\<close>

lemma projects_data_actions:
  "map project_actions projects_data = replicate 3 [DemoButton, GithubLink github_profile]
   \<and> github_profile \<notin> set (map pj_github_url projects_data)"
  by (simp add: projects_data_def project_actions_def github_profile_def numeral_3_eq_3)

subsection \<open>Properties\<close>


text \<open>C23: The buttons of any project card depend only on whether \<open>demoUrl\<close> and
  \<open>githubUrl\<close> are empty, never on the URLs themselves: the demo button is the contact
  form's \<open>DemoClick\<close> (no navigation to \<open>demoUrl\<close>) and the link always opens
  \<open>GITHUB_PROFILE\<close>.\<close>

theorem project_actions_ignore_urls:
  "(project_actions (p\<lparr>pj_demo_url := d, pj_github_url := g\<rparr>) = project_actions p
      \<longleftrightarrow> (d = []) = (pj_demo_url p = []) \<and> (g = []) = (pj_github_url p = []))
   \<and> set (project_actions p) \<subseteq> {DemoButton, GithubLink github_profile}
   \<and> set (map action_event (project_actions p)) \<subseteq> {Some DemoClick, None}"
  by (auto simp: project_actions_def)

end
