(* ===== verification/Header_Nav.thy ===== *)
theory Header_Nav
  imports Prelude
begin

text \<open>
  The navigation of src/src/components/Header.tsx: the \<open>isMenuOpen\<close> and \<open>isScrolled\<close>
  state, the window scroll listener registered on mount and removed on unmount, the menu
  toggle, and \<open>scrollToSection\<close>, which looks the section up with
  \<open>document.getElementById\<close>, scrolls to it if found and closes the menu. The desktop and
  the mobile menu (lines 38-41 and 63-66) map the same five labels, by index, to the same
  list of section ids. The ids are those of the \<open>section\<close> elements of the section
  components; the page that composes them is not part of the repository, so the list of
  mounted sections is taken from the specification (hero, about, skills, projects,
  contact); the ids themselves are those the components render. Labels are not modelled,
  only their number.
\<close>

definition nav_section_ids :: "string list" where
  "nav_section_ids = [''hero'', ''about'', ''skills'', ''projects'', ''contact'']"

definition nav_item_count :: nat where
  "nav_item_count = 5"

text \<open>The \<open>id\<close> of the \<open>section\<close> element each section component renders.\<close>

definition hero_section_id :: string where "hero_section_id = ''hero''"
definition about_section_id :: string where "about_section_id = ''about''"
definition skills_section_id :: string where "skills_section_id = ''skills''"
definition projects_section_id :: string where "projects_section_id = ''projects''"
definition contact_section_id :: string where "contact_section_id = ''contact''"

text \<open>The sections mounted on the page, in page order (the composing page is not part of
  the repository; the order is the specification's).\<close>

definition page_section_ids :: "string list" where
  "page_section_ids = [hero_section_id, about_section_id, skills_section_id, projects_section_id,
                       contact_section_id]"

definition get_element_by_id :: "string \<Rightarrow> string option" where
  "get_element_by_id i = (if i \<in> set page_section_ids then Some i else None)"

record header_state =
  hd_menu_open :: bool
  hd_scrolled :: bool
  hd_listening :: bool
  hd_scroll_target :: "string option"

definition header_init :: header_state where
  "header_init = \<lparr>hd_menu_open = False, hd_scrolled = False, hd_listening = False,
                  hd_scroll_target = None\<rparr>"

text \<open>\<open>handleScroll\<close>: \<open>setIsScrolled(window.scrollY > 50)\<close>.\<close>

definition handle_scroll :: "real \<Rightarrow> header_state \<Rightarrow> header_state" where
  "handle_scroll y s = s\<lparr>hd_scrolled := 50 < y\<rparr>"

text \<open>\<open>document.getElementById(id)\<close>, then \<open>scrollIntoView\<close> on the element if there is
  one (an \<open>if (element)\<close> here, an optional call \<open>?.\<close> in Hero and Footer): the window's
  scroll target becomes the section.\<close>

definition scroll_into_view_by_id :: "string \<Rightarrow> header_state \<Rightarrow> header_state" where
  "scroll_into_view_by_id i s =
     (case get_element_by_id i of Some e \<Rightarrow> s\<lparr>hd_scroll_target := Some e\<rparr> | None \<Rightarrow> s)"

definition scroll_to_section :: "string \<Rightarrow> header_state \<Rightarrow> header_state" where
  "scroll_to_section i s = (scroll_into_view_by_id i s)\<lparr>hd_menu_open := False\<rparr>"

datatype header_input = HdMount | HdScroll real | HdToggle | HdNav nat | HdUnmount

text \<open>A scroll event reaches the handler only while it is registered; a navigation button
  exists for each of the five indices.\<close>

fun header_event :: "header_input \<Rightarrow> header_state \<Rightarrow> header_state" where
  "header_event HdMount s = s\<lparr>hd_listening := True\<rparr>"
| "header_event (HdScroll y) s = (if hd_listening s then handle_scroll y s else s)"
| "header_event HdToggle s = s\<lparr>hd_menu_open := \<not> hd_menu_open s\<rparr>"
| "header_event (HdNav k) s =
     (if k < nav_item_count then scroll_to_section (nav_section_ids ! k) s else s)"
| "header_event HdUnmount s = s\<lparr>hd_listening := False\<rparr>"

fun header_run :: "header_input list \<Rightarrow> header_state \<Rightarrow> header_state" where
  "header_run [] s = s"
| "header_run (e # es) s = header_run es (header_event e s)"

subsection \<open>Lemmas\<close>

lemma scroll_into_view_found:
  "i \<in> set page_section_ids \<Longrightarrow> scroll_into_view_by_id i s = s\<lparr>hd_scroll_target := Some i\<rparr>"
  by (simp add: scroll_into_view_by_id_def get_element_by_id_def)

lemma scroll_to_section_found:
  "i \<in> set page_section_ids \<Longrightarrow> scroll_to_section i s = s\<lparr>hd_scroll_target := Some i, hd_menu_open := False\<rparr>"
  by (simp add: scroll_to_section_def scroll_into_view_found)

end
