(* ===== verification/Hero_Ui.thy ===== *)
theory Hero_Ui
  imports Header_Nav
begin

text \<open>
  The interactive state of src/src/components/Hero.tsx outside its particle effect, and the
  CV viewer src/src/components/CVModal.tsx it renders. Hero keeps the index of the rotating
  description, advanced by a 2500 ms \<open>setInterval\<close> registered on mount and cleared on
  unmount, and the open flag of the modal. CVModal is always rendered (its hook runs even
  while it returns \<open>null\<close>); its effect writes \<open>document.body.style.overflow\<close> whenever
  \<open>isOpen\<close> changes, after the cleanup of the previous run. \<open>handleDownload\<close> appends a
  link to the body, clicks it and removes it again. The sentences of
  \<open>dynamicDescriptions\<close> are not modelled, only their number, which is all the rotation
  reads. The two scroll buttons of the hero act on the window, modelled in Header_Nav.
\<close>

definition desc_count :: nat where
  "desc_count = 3"

datatype overflow = OverflowUnset | OverflowHidden | OverflowAuto

record hero_ui =
  hu_mounted :: bool
  hu_desc :: nat
  hu_interval :: bool
  hu_cv_open :: bool
  hu_overflow :: overflow
  hu_body :: "nat list"
  hu_next_node :: nat
  hu_downloads :: "(string \<times> string) list"

definition hero_ui_init :: hero_ui where
  "hero_ui_init = \<lparr>hu_mounted = False, hu_desc = 0, hu_interval = False, hu_cv_open = False,
                   hu_overflow = OverflowUnset, hu_body = [], hu_next_node = 0, hu_downloads = []\<rparr>"

text \<open>The interval callback \<open>setCurrentDescription(prev => (prev + 1) % length)\<close>.\<close>

definition next_description :: "nat \<Rightarrow> nat" where
  "next_description prev = (prev + 1) mod desc_count"

text \<open>The body of CVModal's effect and its cleanup.\<close>

definition cv_effect :: "hero_ui \<Rightarrow> hero_ui" where
  "cv_effect s = s\<lparr>hu_overflow := (if hu_cv_open s then OverflowHidden else OverflowAuto)\<rparr>"

definition cv_cleanup :: "hero_ui \<Rightarrow> hero_ui" where
  "cv_cleanup s = s\<lparr>hu_overflow := OverflowAuto\<rparr>"

text \<open>\<open>setIsCVModalOpen(b)\<close>: an unchanged value causes no render and so no effect run;
  a changed one runs the previous cleanup, then the effect.\<close>

definition set_cv_open :: "bool \<Rightarrow> hero_ui \<Rightarrow> hero_ui" where
  "set_cv_open b s = (if b = hu_cv_open s then s else cv_effect (cv_cleanup (s\<lparr>hu_cv_open := b\<rparr>)))"

definition cv_href :: string where
  "cv_href = ''/CV%20Marouane%20El%20Hamdaoui.pdf''"

definition cv_filename :: string where
  "cv_filename = ''CV-Marouane-El-Hamdaoui.pdf''"

text \<open>\<open>handleDownload\<close>: the new anchor is a fresh node; \<open>click()\<close> requests the download of
  its \<open>href\<close> under its \<open>download\<close> name; \<open>removeChild\<close> takes that node out again.\<close>

definition handle_download :: "hero_ui \<Rightarrow> hero_ui" where
  "handle_download s =
     (let link = hu_next_node s;
          s1 = s\<lparr>hu_body := hu_body s @ [link], hu_next_node := Suc link\<rparr>;
          s2 = s1\<lparr>hu_downloads := hu_downloads s1 @ [(cv_href, cv_filename)]\<rparr>
      in s2\<lparr>hu_body := remove1 link (hu_body s2)\<rparr>)"

text \<open>\<open>scrollToAbout\<close> and \<open>scrollToContact\<close>, the "scroll down" arrow and the
  contact button of the hero.\<close>

definition scroll_to_about :: "header_state \<Rightarrow> header_state" where
  "scroll_to_about = scroll_into_view_by_id ''about''"

definition scroll_to_contact :: "header_state \<Rightarrow> header_state" where
  "scroll_to_contact = scroll_into_view_by_id ''contact''"

datatype hero_input = HeroMount | HeroTick | OpenCV | CloseCV | DownloadCV | HeroUnmount

text \<open>Mounting sets the initial state of both \<open>useState\<close>s, registers the interval and runs
  CVModal's effect with \<open>isOpen = false\<close>. A cleared interval never fires; the buttons that
  open the modal, close it and download exist only while mounted, the last two only while
  the modal is open. Unmounting clears the interval and runs CVModal's cleanup.\<close>

fun hero_event :: "hero_input \<Rightarrow> hero_ui \<Rightarrow> hero_ui" where
  "hero_event HeroMount s =
     (if hu_mounted s then s
      else cv_effect (s\<lparr>hu_mounted := True, hu_desc := 0, hu_interval := True, hu_cv_open := False\<rparr>))"
| "hero_event HeroTick s = (if hu_interval s then s\<lparr>hu_desc := next_description (hu_desc s)\<rparr> else s)"
| "hero_event OpenCV s = (if hu_mounted s then set_cv_open True s else s)"
| "hero_event CloseCV s = (if hu_mounted s \<and> hu_cv_open s then set_cv_open False s else s)"
| "hero_event DownloadCV s = (if hu_mounted s \<and> hu_cv_open s then handle_download s else s)"
| "hero_event HeroUnmount s =
     (if hu_mounted s then cv_cleanup (s\<lparr>hu_mounted := False, hu_interval := False, hu_cv_open := False\<rparr>)
      else s)"

fun hero_run :: "hero_input list \<Rightarrow> hero_ui \<Rightarrow> hero_ui" where
  "hero_run [] s = s"
| "hero_run (e # es) s = hero_run es (hero_event e s)"

inductive hero_reachable :: "hero_ui \<Rightarrow> bool" where
  init: "hero_reachable hero_ui_init"
| step: "hero_reachable s \<Longrightarrow> hero_reachable (hero_event e s)"

definition hero_inv :: "hero_ui \<Rightarrow> bool" where
  "hero_inv s \<longleftrightarrow>
     hu_desc s < desc_count \<and> (hu_interval s \<longleftrightarrow> hu_mounted s) \<and> (hu_cv_open s \<longrightarrow> hu_mounted s)
     \<and> (hu_overflow s = OverflowHidden \<longleftrightarrow> hu_cv_open s)
     \<and> (\<forall>n \<in> set (hu_body s). n < hu_next_node s)"

subsection \<open>Lemmas\<close>

lemma next_description_lt: "next_description prev < desc_count"
  by (simp add: next_description_def desc_count_def)

lemma handle_download_body:
  assumes "hu_next_node s \<notin> set (hu_body s)"
  shows "hu_body (handle_download s) = hu_body s"
  using assms by (simp add: handle_download_def Let_def remove1_append)

lemma handle_download_fields:
  "hu_downloads (handle_download s) = hu_downloads s @ [(cv_href, cv_filename)]"
  "hu_next_node (handle_download s) = Suc (hu_next_node s)"
  "hu_overflow (handle_download s) = hu_overflow s" "hu_cv_open (handle_download s) = hu_cv_open s"
  "hu_mounted (handle_download s) = hu_mounted s" "hu_desc (handle_download s) = hu_desc s"
  "hu_interval (handle_download s) = hu_interval s"
  by (simp_all add: handle_download_def Let_def)

lemma hero_inv_init: "hero_inv hero_ui_init"
  by (simp add: hero_inv_def hero_ui_init_def desc_count_def)

lemma hero_event_inv: "hero_inv s \<Longrightarrow> hero_inv (hero_event e s)"
proof (cases e)
  case DownloadCV
  assume i: "hero_inv s"
  then have "hu_next_node s \<notin> set (hu_body s)" by (auto simp: hero_inv_def)
  then show ?thesis using i DownloadCV
    by (auto simp: hero_inv_def handle_download_body handle_download_fields)
qed (auto simp: hero_inv_def cv_effect_def cv_cleanup_def set_cv_open_def next_description_lt [unfolded desc_count_def]
       desc_count_def)

lemma hero_reachable_inv: "hero_reachable s \<Longrightarrow> hero_inv s"
  by (induction rule: hero_reachable.induct) (simp_all add: hero_inv_init hero_event_inv)

lemma hero_run_reachable: "hero_reachable s \<Longrightarrow> hero_reachable (hero_run es s)"
  by (induction es arbitrary: s) (simp_all add: hero_reachable.step)

lemma hero_ticks:
  "hu_interval s \<Longrightarrow> hu_desc s < desc_count \<Longrightarrow>
   hu_desc (hero_run (replicate k HeroTick) s) = (hu_desc s + k) mod desc_count
   \<and> hu_interval (hero_run (replicate k HeroTick) s)"
proof (induction k arbitrary: s)
  case 0
  then show ?case by simp
next
  case (Suc k)
  have "hu_desc (hero_event HeroTick s) < desc_count" using Suc.prems by (simp add: next_description_lt)
  then show ?case using Suc.IH [of "hero_event HeroTick s"] Suc.prems
    by (simp add: next_description_def mod_add_left_eq)
qed

subsection \<open>Properties\<close>

text \<open>C17: From mount, after \<open>k\<close> firings of the 2500 ms interval the hero shows
  description \<open>k mod 3\<close>: the index cycles through the three descriptions and is always a
  valid index of \<open>dynamicDescriptions\<close>.\<close>

theorem hero_rotation:
  "hu_desc (hero_run (HeroMount # replicate k HeroTick) hero_ui_init) = k mod desc_count"
  using hero_ticks [of "hero_event HeroMount hero_ui_init" k]
  by (simp add: hero_ui_init_def cv_effect_def desc_count_def)

text \<open>C18: In every reachable state the page's scrolling is locked
  (\<open>body.style.overflow = 'hidden'\<close>) exactly while the hero is mounted with the CV modal
  open; closing the modal or unmounting the hero always restores it.\<close>

theorem overflow_hidden_iff_modal_open:
  "hero_reachable s \<Longrightarrow> hu_overflow s = OverflowHidden \<longleftrightarrow> hu_mounted s \<and> hu_cv_open s"
  using hero_reachable_inv [of s] by (auto simp: hero_inv_def)

lemma overflow_hidden_iff_modal_open_witness:
  "hero_reachable (hero_run [HeroMount, OpenCV] hero_ui_init)
   \<and> hu_overflow (hero_run [HeroMount, OpenCV] hero_ui_init) = OverflowHidden"
proof -
  have r: "hero_reachable (hero_run [HeroMount, OpenCV] hero_ui_init)"
    by (rule hero_run_reachable [OF hero_reachable.init])
  have "hu_mounted (hero_run [HeroMount, OpenCV] hero_ui_init) \<and> hu_cv_open (hero_run [HeroMount, OpenCV] hero_ui_init)"
    by (simp add: hero_ui_init_def cv_effect_def cv_cleanup_def set_cv_open_def)
  then show ?thesis using overflow_hidden_iff_modal_open [OF r] r by blast
qed

text \<open>C19: The download button of the open modal requests exactly one download, of the CV
  file under its download name, and leaves the children of the body as they were; the
  scroll lock stays in place.\<close>

theorem download_restores_body:
  assumes "hero_reachable s" "hu_mounted s" "hu_cv_open s"
  shows "hu_body (hero_event DownloadCV s) = hu_body s
         \<and> hu_downloads (hero_event DownloadCV s) = hu_downloads s @ [(cv_href, cv_filename)]
         \<and> hu_overflow (hero_event DownloadCV s) = OverflowHidden"
proof -
  have i: "hero_inv s" using assms(1) by (rule hero_reachable_inv)
  then have "hu_next_node s \<notin> set (hu_body s)" by (auto simp: hero_inv_def)
  then show ?thesis using i assms(2,3)
    by (simp add: handle_download_body handle_download_fields hero_inv_def)
qed

lemma download_restores_body_witness:
  "hero_reachable (hero_run [HeroMount, OpenCV] hero_ui_init)
   \<and> hu_mounted (hero_run [HeroMount, OpenCV] hero_ui_init) \<and> hu_cv_open (hero_run [HeroMount, OpenCV] hero_ui_init)
   \<and> hu_downloads (hero_event DownloadCV (hero_run [HeroMount, OpenCV] hero_ui_init))
       = [(''/CV%20Marouane%20El%20Hamdaoui.pdf'', ''CV-Marouane-El-Hamdaoui.pdf'')]"
proof -
  have r: "hero_reachable (hero_run [HeroMount, OpenCV] hero_ui_init)"
    by (rule hero_run_reachable [OF hero_reachable.init])
  have m: "hu_mounted (hero_run [HeroMount, OpenCV] hero_ui_init)" "hu_cv_open (hero_run [HeroMount, OpenCV] hero_ui_init)"
    "hu_downloads (hero_run [HeroMount, OpenCV] hero_ui_init) = []"
    by (simp_all add: hero_ui_init_def cv_effect_def cv_cleanup_def set_cv_open_def)
  show ?thesis using download_restores_body [OF r m(1,2)] r m by (simp add: cv_href_def cv_filename_def)
qed

end
