(* ===== verification/Footer_Nav.thy ===== *)
theory Footer_Nav
  imports Header_Nav
begin

text \<open>
  The interactive part of src/src/components/Footer.tsx: the quick links, each of which
  scrolls to a section with \<open>document.getElementById(link.id)?.scrollIntoView(...)\<close>,
  and the back-to-top button, \<open>window.scrollTo({top: 0})\<close>. Both act on the same window
  as the Header, so they are modelled on \<open>header_state\<close>: a link sets the scroll target
  (without touching the mobile menu, unlike the Header's \<open>scrollToSection\<close>), and
  scrolling to the top ends with the window's scroll event at position 0, which the
  Header's listener receives. The link labels, the social links and the copyright year
  (read from the clock) are not modelled.
\<close>

definition footer_link_ids :: "string list" where
  "footer_link_ids = [''hero'', ''about'', ''skills'', ''projects'', ''contact'']"

definition scroll_to_top :: "header_state \<Rightarrow> header_state" where
  "scroll_to_top s = header_event (HdScroll 0) (s\<lparr>hd_scroll_target := None\<rparr>)"

datatype footer_input = FtLink nat | FtTop

fun footer_event :: "footer_input \<Rightarrow> header_state \<Rightarrow> header_state" where
  "footer_event (FtLink k) s =
     (if k < length footer_link_ids then scroll_into_view_by_id (footer_link_ids ! k) s else s)"
| "footer_event FtTop s = scroll_to_top s"

end
