(* ===== verification/Inline_Styles.thy ===== *)
theory Inline_Styles
  imports Prelude
begin






subsection \<open>The styles of the two badge lists and of the skill bars\<close>







subsection \<open>Data\<close>

definition about_technologies :: "string list" where
  "about_technologies = [''Laravel'', ''PHP'', ''React'', ''JavaScript'', ''Node.js'', ''MySQL'',
                         ''MongoDB'', ''Tailwind CSS'']"

definition skills_technologies :: "string list" where
  "skills_technologies = [''Laravel'', ''PHP'', ''React'', ''JavaScript'', ''Node.js'', ''Express'',
                          ''MySQL'', ''MongoDB'', ''Tailwind CSS'', ''Git'', ''GitHub'', ''Python'']"

record skill =
  sk_name :: string
  sk_level :: nat

definition skill_categories :: "(string \<times> skill list) list" where
  "skill_categories =
     [(''Frontend'',
       [\<lparr>sk_name = ''React'', sk_level = 95\<rparr>, \<lparr>sk_name = ''JavaScript'', sk_level = 90\<rparr>,
        \<lparr>sk_name = ''Vue.js'', sk_level = 85\<rparr>, \<lparr>sk_name = ''Tailwind CSS'', sk_level = 95\<rparr>,
        \<lparr>sk_name = ''Next.js'', sk_level = 88\<rparr>]),
      (''Backend'',
       [\<lparr>sk_name = ''Laravel'', sk_level = 90\<rparr>, \<lparr>sk_name = ''Python'', sk_level = 85\<rparr>,
        \<lparr>sk_name = ''MySQL'', sk_level = 88\<rparr>, \<lparr>sk_name = ''MongoDB'', sk_level = 82\<rparr>,
        \<lparr>sk_name = ''Express.js'', sk_level = 80\<rparr>]),
      (''DevOps & Tools'',
       [\<lparr>sk_name = ''Docker'', sk_level = 85\<rparr>, \<lparr>sk_name = ''GitHub'', sk_level = 80\<rparr>,
        \<lparr>sk_name = ''Git'', sk_level = 95\<rparr>, \<lparr>sk_name = ''CI/CD'', sk_level = 82\<rparr>,
        \<lparr>sk_name = ''UML'', sk_level = 85\<rparr>])]"


subsection \<open>Lemmas\<close>



subsection \<open>Properties\<close>


end
