(* ===== verification/Site_Links.thy ===== *)
theory Site_Links
  imports Footer_Nav
begin

text \<open>
  The plain links of the page: the contact entries of src/src/components/Contact.tsx
  (\<open>contactInfo\<close>, rendered as \<open><a href={info.href}>\<close> showing \<open>info.details\<close>), the
  social links of Hero.tsx and the \<open>socialLinks\<close> of Footer.tsx. A click on an anchor is
  the browser's navigation to its \<open>href\<close>, classified by scheme: \<open>mailto:\<close> and
  \<open>tel:\<close> hand the address or number to the mail client or the dialer, a fragment
  \<open>#f\<close> stays on the page (the empty fragment scrolls to the top), anything else opens
  the URL. Navigation within the page acts on the window state of Header_Nav. Icons and
  titles are markup (the phone entry's title is not ASCII) and are not modelled.
\<close>

record contact_item =
  ci_details :: string
  ci_href :: string

definition contact_info :: "contact_item list" where
  "contact_info =
     [\<lparr>ci_details = ''elhamdawimarwane@gmail.com'', ci_href = ''mailto:elhamdawimarwane@gmail.com''\<rparr>,
      \<lparr>ci_details = ''+212 7 77 07 97 74'', ci_href = ''tel:+212777079774''\<rparr>,
      \<lparr>ci_details = ''Maroc'', ci_href = ''#''\<rparr>]"

text \<open>The social links as pairs of \<open>label\<close> and \<open>href\<close>.\<close>

definition hero_social_links :: "(string \<times> string) list" where
  "hero_social_links =
     [(''GitHub'', ''https://github.com/Mar11wane-git''),
      (''LinkedIn'', ''https://www.linkedin.com/in/Marouane-El-Hamdaoui/''),
      (''Email'', ''mailto:marouane.elhamdaoui@gmail.com'')]"

definition footer_social_links :: "(string \<times> string) list" where
  "footer_social_links =
     [(''GitHub'', ''#''), (''LinkedIn'', ''#''), (''Email'', ''mailto:contact@exemple.com'')]"

datatype link_target = Mailto string | Tel string | SamePage string | External string

definition link_target :: "string \<Rightarrow> link_target" where
  "link_target h =
     (if take 7 h = ''mailto:'' then Mailto (drop 7 h)
      else if take 4 h = ''tel:'' then Tel (drop 4 h)
      else if take 1 h = ''#'' then SamePage (drop 1 h)
      else External h)"

text \<open>Following a link: the new window state, and what is handed outside the page.\<close>

definition follow_link :: "string \<Rightarrow> header_state \<Rightarrow> header_state \<times> link_target option" where
  "follow_link h s =
     (case link_target h of
        SamePage f \<Rightarrow> (if f = [] then (scroll_to_top s, None) else (scroll_into_view_by_id f s, None))
      | t \<Rightarrow> (s, Some t))"

subsection \<open>The links of the data\<close>

text \<open>The contact entries link to what they display: the e-mail entry to its address,
  the phone entry to its number with the spaces removed; the location entry links to
  \<open>#\<close>, the top of the page.\<close>

lemma contact_links_match_details:
  "map (link_target \<circ> ci_href) contact_info =
     [Mailto (ci_details (contact_info ! 0)),
      Tel (filter (\<lambda>c. c \<noteq> CHR '' '') (ci_details (contact_info ! 1))),
      SamePage []]"
  by (simp add: contact_info_def link_target_def)

text \<open>The footer's GitHub and LinkedIn icons are placeholders: following them only
  scrolls the page back to the top (the header returns to its unscrolled style), while the
  same icons of the hero open the profiles; and the page offers three different e-mail
  addresses, one of them the placeholder \<open>contact@exemple.com\<close>.\<close>

lemma footer_social_links_are_placeholders:
  "map (\<lambda>(l, h). snd (follow_link h s)) footer_social_links
     = [None, None, Some (Mailto ''contact@exemple.com'')]
   \<and> map (\<lambda>(l, h). fst (follow_link h s)) (take 2 footer_social_links)
     = replicate 2 (scroll_to_top s)
   \<and> map (\<lambda>(l, h). snd (follow_link h s)) (take 2 hero_social_links)
     = [Some (External ''https://github.com/Mar11wane-git''),
        Some (External ''https://www.linkedin.com/in/Marouane-El-Hamdaoui/'')]
   \<and> [link_target (snd (hero_social_links ! 2)), link_target (snd (footer_social_links ! 2)),
      link_target (ci_href (contact_info ! 0))]
     = [Mailto ''marouane.elhamdaoui@gmail.com'', Mailto ''contact@exemple.com'',
        Mailto ''elhamdawimarwane@gmail.com'']"
  by (simp add: footer_social_links_def hero_social_links_def contact_info_def follow_link_def
      link_target_def numeral_2_eq_2)

end
