(* ===== verification/Spec2Isabelle.thy ===== *)
theory Spec2Isabelle
  imports Fx_Instances Contact_Props Projects_Data Hero_Ui Header_Nav Footer_Nav Inline_Styles
    Site_Links
begin

text \<open>
  \<^bold>\<open>A verification development of the portfolio site in src/src/components.\<close>

  \<^bold>\<open>The program.\<close> The site is a single page of React components. Its only algorithmic
  part is an animated particle background. A canvas is filled with particles that drift,
  wrap around a 50-pixel margin, are attracted by the mouse pointer, twinkle, and are
  joined by lines when close. It is written five times, with different constants:
  BackgroundFX.tsx (used by Contact.tsx), and inline in Hero.tsx, About.tsx, Skills.tsx
  and Projects.tsx. Each copy is a \<open>useEffect\<close> that sets the canvas up, registers
  \<open>resize\<close> and \<open>mousemove\<close> listeners on the window, runs a
  \<open>requestAnimationFrame\<close> loop, and undoes all of it in its cleanup. Around it are four
  small pieces of interactive state:
  \<^item> Contact.tsx: a form with a simulated submit by two chained \<open>setTimeout\<close>s.
  \<^item> Hero.tsx: a description rotated by a \<open>setInterval\<close>, and a flag that opens the
    CV viewer.
  \<^item> CVModal.tsx: the viewer itself, which locks body scrolling while open and downloads
    the CV through a temporary anchor.
  \<^item> Header.tsx: the header, with a scroll-dependent style, a mobile menu and navigation
    buttons that scroll to the sections by id.
  \<^item> Projects.tsx: project cards that pick an icon per technology (\<open>getTechIcon\<close>) and
    have a "Demo" button that scrolls to the contact form and focuses its name input
    800 ms later, through the same browser timer queue as the form's own timers.
  \<^item> Footer.tsx: quick links to the sections and a back-to-top button, which acts on
    the same window as the Header.
  \<^item> About.tsx and Skills.tsx, outside their effect: lists of technologies shown as
    badges with a staggered fade-in, and skill bars whose width is the skill's level.
  \<^item> Plain links: the contact entries of Contact.tsx and the social links of Hero.tsx and
    Footer.tsx.

  \<^bold>\<open>Theories.\<close>
  \<^item> Prelude: the rule collections and the shared facts on square roots of sums of
    squares (every distance test) and on lists.
  \<^item> Js_Number: JavaScript numbers as \<open>jsnum\<close> (\<open>Fin r | PInf | NInf | NaN\<close>), with
    the operators the effect uses: \<open>+ - * /\<close>, \<open>< >\<close>, \<open>Math.hypot\<close>, \<open>Math.sin\<close>,
    \<open>Math.floor\<close>, \<open>Math.max\<close>, \<open>Math.min\<close> and \<open>||\<close>. It also has the conversions
    ToLength (\<open>Array.from({length})\<close>) and WebIDL \<open>unsigned long\<close>
    (a \<open>32 word\<close>, wrapping modulo \<open>2^32\<close>).
  \<^item> Particle_Field: one frame of the effect, for a record \<open>fx_config\<close> of the constants
    of a file. The closure variables are \<open>field_state\<close>:
    \<^item> \<open>resize\<close> is \<open>fx_resize\<close> (it also returns the new \<open>canvas_state\<close>);
      the assignments to \<open>canvas.width\<close> and \<open>canvas.height\<close> are \<open>canvas_dim\<close>:
      the \<open>unsigned long\<close> conversion, then the reflecting setter of HTML, which keeps
      values up to 2147483647 and sets the default (300, 150) otherwise;
    \<^item> \<open>onMouseMove\<close> is \<open>fx_mouse_move\<close>;
    \<^item> the particle update of \<open>step\<close> is \<open>attract\<close>, \<open>advance\<close> and \<open>wrap\<close>,
      composed in \<open>update_particle\<close>;
    \<^item> the drawing of \<open>step\<close> is \<open>particle_fill\<close>, the nested link loop
      \<open>link_lines\<close> and \<open>pointer_line\<close>;
    \<^item> \<open>fx_step\<close> is the whole frame.
  \<^item> Fx_Lifecycle: the effect and the browser around it. The state \<open>fx_sys\<close> holds:
    \<^item> the mount phase and generation;
    \<^item> the window's listener list;
    \<^item> the pending animation frames, with their ids;
    \<^item> \<open>raf\<close>, the position in the random stream and the drawing of the last frame.

    \<open>fx_event\<close> handles one host event (Mount, WinResize, MouseMove, AnimFrame, Unmount),
    and \<open>fx_reachable\<close> is the reachable set. \<open>mount\<close> is the effect body with its
    early return, and \<open>cleanup\<close> is its returned function.
  \<^item> Fx_Instances: the five configurations and effects, one per file.
  \<^item> Timer_Queue: the browser's queue of \<open>setTimeout\<close> callbacks, generic in the
    job type. It holds the insertion \<open>ins_timer\<close>, its equality with the stable sort
    \<open>sort_key\<close> of the library, and the well-formedness \<open>queue_ok\<close>. It models the
    browser, not code of the repository.
  \<^item> Contact_Form: \<open>formData\<close> and \<open>isSubmitted\<close>, \<open>handleChange\<close>
    (\<open>set_field\<close>), \<open>handleSubmit\<close> and its timer callbacks (\<open>run_job\<close>), and the
    browser's \<open>required\<close> and \<open>type=email\<close> checks (\<open>form_valid\<close>). The browser's
    timer queue is explicit (\<open>ins_timer\<close>, and the firing loop \<open>advance_to\<close>).
    \<open>field_value\<close> is the \<open>value\<close> each input renders.
    \<open>contact_step\<close> handles typing, submitting, the passing of time and the click on a
    project's "Demo" button (\<open>DemoClick\<close>, whose timer job is \<open>FocusName\<close>).
    Its properties and their witnesses are in Contact_Props.
  \<^item> Projects_Data: the \<open>projectsData\<close> entries (id, title, technologies, URLs),
    \<open>getTechIcon\<close> with an ASCII \<open>toLowerCase\<close>, and the action buttons of a card.
  \<^item> Hero_Ui: the description index and its interval, the modal flag, CVModal's
    overflow effect and cleanup, and \<open>handleDownload\<close>. \<open>hero_event\<close> handles each event.
    \<open>scrollToAbout\<close> and \<open>scrollToContact\<close> act on the window state of Header_Nav.
  \<^item> Header_Nav: \<open>isMenuOpen\<close>, \<open>isScrolled\<close>, the scroll listener, \<open>scrollToSection\<close>
    and the navigation buttons. \<open>scroll_into_view_by_id\<close> is the lookup-and-scroll that
    Header, Hero and Footer share; it finds the ids that the section components render
    (\<open>hero_section_id\<close> and the others), on the page the specification composes.
  \<^item> Footer_Nav: the quick links and \<open>scrollToTop\<close>, as events on the Header's state.
  \<^item> Inline_Styles: the technology lists and skill data of About and Skills, and the
    style objects of their badges and bars, for each list they map over. React writes a
    style's keys in order, and the \<open>animation\<close> shorthand resets the longhands it omits.
  \<^item> Site_Links: the hrefs and details of the contact entries and the social links. A
    click is the browser's navigation by scheme (\<open>link_target\<close>, \<open>follow_link\<close>); an
    in-page fragment acts on the window state of Header_Nav. Its lemmas record what the
    literals link to; none of them is a claim.

  \<^bold>\<open>What is proved.\<close> The properties are theorems after a text block naming their claim
  (C1 to C24).
  \<^item> Particle effect:
    \<^item> invariants of every reachable state: particles stay in the margin or are NaN
      (C1); listeners and frames belong to the live mount only (C7);
    \<^item> the NaN-poisoning error path when the pointer sits on a particle (C2);
    \<^item> teardown (C3) and the inert early return (C8);
    \<^item> the link pass equals the index-based double loop (C4), and each link is drawn
      iff the particles are close (C5);
    \<^item> resize rebuilds the array with the clamped count (C6);
    \<^item> bounds: velocity kick (C10); colour channels, whose far end is a beige and not
      the teal the comments name (C11); DPR and canvas buffer size, with the 32-bit wrap
      and the reflecting setter's default (C12);
    \<^item> the pointer's effect: far away (C9) and initially (C13).
  \<^item> Contact form:
    \<^item> the exact timeline of one submission (C14);
    \<^item> liveness: every reachable state settles within 4000 ms, by an invariant of the
      timer queue proved by rule induction (C15);
    \<^item> for every idle valid form, a double submit erases input typed after the first
      reset (C16);
    \<^item> the Demo button's delayed focus succeeds exactly when the form is rendered (C21).
    Lemmas without a claim show that the browser's queue stays well formed and that
    \<open>setTimeout\<close> refines the HTML ordering of timers, the stable sort by due time.
  \<^item> Hero: the rotation (C17), the scroll lock exactly while the modal is open (C18),
    and the download leaving the body unchanged (C19).
  \<^item> Navigation across Header, Footer and Hero: every in-page control finds the section
    a component renders (C20).
  \<^item> Projects: \<open>getTechIcon\<close> ignores letter case (C22), and the card buttons depend
    only on whether the URLs are empty, never on the URLs (C23).
  \<^item> About and Skills: for any list, the badges' staggered delay is lost to the
    shorthand, while the skill bars keep theirs (C24).

  \<^bold>\<open>Modelling choices.\<close>
  \<^item> Numbers are exact reals with IEEE infinities and NaN. There is no rounding and
    no signed zero, and \<open>Math.PI\<close> is \<open>pi\<close>.
  \<^item> \<open>Math.random()\<close> is an arbitrary stream \<open>rnd\<close> with values in [0, 1), read at a
    threaded position.
  \<^item> Time is a real timestamp for the animation and whole milliseconds for
    \<open>setTimeout\<close>.
  \<^item> The e-mail syntax check of the browser is an abstract predicate.
  \<^item> \<open>toLowerCase\<close> is modelled on ASCII letters, which is all the data contains.
  \<^item> No loop needs fuel. Frames, events and runs are structural recursions. The timer
    loop \<open>advance_to\<close> is a total function: it terminates by a measure, the weight of
    the pending jobs, which every fired job decreases.

  \<^bold>\<open>Not modelled.\<close> What is left is either static, with no state, no handler and no
  computed value beyond a rendered literal, or is the browser's own work:
  \<^item> JSX markup, CSS classes, icons and the texts of the sections.
  \<^item> The Footer's copyright year, which reads the clock.
  \<^item> The descriptions, feature lists and SVG icons of the projects, and the stats and
    specialties of About. They are literals that are only rendered.
  \<^item> CSS beyond the animation and width properties of the inline styles, and the parsing
    of a shorthand string, whose components are given already split.
  \<^item> Canvas pixel output beyond the list of drawing commands.
  \<^item> The smooth-scroll animation.
  \<^item> The page that composes the sections, which is not in the repository. Its order
    of sections (hero, about, skills, projects, contact) comes from the specification.
\<close>

section \<open>Concrete inputs for the witnesses\<close>

definition half_rnd :: "nat \<Rightarrow> real" where
  "half_rnd k = 1 / 2"

definition demo_particle :: particle where
  "demo_particle = \<lparr>p_x = Fin 100, p_y = Fin 100, p_vx = Fin 0.1, p_vy = Fin 0, p_r = Fin 1,
                    p_seed = Fin 0\<rparr>"

abbreviation hero_mounted :: fx_sys where
  "hero_mounted \<equiv> fx_event hero_config half_rnd (Mount True True (Fin 1) 800 600) sys_init"

section \<open>Properties of the particle effect\<close>

text \<open>C1: in every state the effect of any of the five files can reach, while it runs, every particle is inside the wrap margin [-50, width + 50] x [-50, height + 50] with a finite velocity, or has position and velocity NaN (the only way out of the margin).\<close>

theorem reachable_particles_in_margin:
  assumes "fx_reachable c rnd s" "cfg_ok c" "\<forall>k. 0 \<le> rnd k \<and> rnd k < 1" "sys_phase s = Running"
  shows "\<exists>w h. fs_width (sys_field s) = Fin w \<and> fs_height (sys_field s) = Fin h \<and> 0 \<le> w \<and> 0 \<le> h \<and>
           (\<forall>p \<in> set (fs_particles (sys_field s)).
              (in_margin w (p_x p) \<and> in_margin h (p_y p) \<and> is_fin (p_vx p) \<and> is_fin (p_vy p))
              \<or> poisoned p)"
proof -
  have "field_ok (sys_field s)"
    using fx_reachable_inv [OF assms(1-3)] assms(4) by (simp add: sys_inv_def)
  then show ?thesis
    by (auto simp: field_ok_def particle_ok_def list_all_iff split: jsnum.splits)
qed

text \<open>C2: when the pointer is exactly on a particle, the attraction computes 0 / 0: after one frame the particle's position and velocity are NaN, it stays NaN in every later frame, and it is never linked to another particle or to the pointer again (it has vanished until the next resize).\<close>

theorem pointer_on_particle_poisons:
  assumes "p_x p = Fin x" "p_y p = Fin y" "fs_mouse_x s = Fin x" "fs_mouse_y s = Fin y" "cfg_ok c"
  shows "poisoned (update_particle c s p) \<and>
         (\<forall>s' b mx my. poisoned (update_particle c s' (update_particle c s p))
            \<and> link_line c (update_particle c s p) b = [] \<and> link_line c b (update_particle c s p) = []
            \<and> pointer_line c mx my (update_particle c s p) = [])"
proof -
  have q: "poisoned (update_particle c s p)"
    using update_particle_coincident assms by (simp add: cfg_ok_def)
  then show ?thesis using update_particle_poisoned poisoned_no_links by blast
qed

text \<open>C3: the cleanup of a reachable effect leaves no window listener and no pending animation frame; running it twice is the same as once, and an animation frame after it changes nothing.\<close>

theorem teardown_cancels_everything:
  assumes "fx_reachable c rnd s" "cfg_ok c" "\<forall>k. 0 \<le> rnd k \<and> rnd k < 1"
  shows "sys_listeners (fx_event c rnd Unmount s) = [] \<and> sys_frames (fx_event c rnd Unmount s) = []
         \<and> sys_phase (fx_event c rnd Unmount s) = Unmounted
         \<and> fx_event c rnd Unmount (fx_event c rnd Unmount s) = fx_event c rnd Unmount s
         \<and> fx_event c rnd (AnimFrame t) (fx_event c rnd Unmount s) = fx_event c rnd Unmount s"
proof -
  have inv: "sys_inv (fx_event c rnd Unmount s)"
    using fx_event_inv [OF fx_reachable_inv [OF assms] assms(2,3)] .
  have ph: "sys_phase (fx_event c rnd Unmount s) = Unmounted"
    by (cases "sys_phase s") simp_all
  then have e: "sys_listeners (fx_event c rnd Unmount s) = [] \<and> sys_frames (fx_event c rnd Unmount s) = []"
    using inv by (simp add: sys_inv_def)
  show ?thesis using ph e by simp
qed

text \<open>C5: for two particles at finite positions, a link is drawn exactly when their distance is below the link distance, from the first to the second, with the configured colour, width 1 and opacity (1 - d / maxDist) * alpha, which lies in (0, alpha].\<close>

theorem link_drawn_iff_close:
  assumes "p_x a = Fin ax" "p_y a = Fin ay" "p_x b = Fin bx" "p_y b = Fin by"
    and "cfg_link_rgb c = (r, g, bl)" "0 < cfg_link_alpha c"
  shows "link_line c a b =
           (if sqrt ((ax - bx)\<^sup>2 + (ay - by)\<^sup>2) < cfg_link_dist c
            then [StrokeLine (Fin ax) (Fin ay) (Fin bx) (Fin by)
                    (RGBA (Fin r) (Fin g) (Fin bl)
                      (Fin ((1 - sqrt ((ax - bx)\<^sup>2 + (ay - by)\<^sup>2) / cfg_link_dist c) * cfg_link_alpha c)))
                    (Fin 1)]
            else [])
         \<and> (sqrt ((ax - bx)\<^sup>2 + (ay - by)\<^sup>2) < cfg_link_dist c \<longrightarrow>
             0 < (1 - sqrt ((ax - bx)\<^sup>2 + (ay - by)\<^sup>2) / cfg_link_dist c) * cfg_link_alpha c
             \<and> (1 - sqrt ((ax - bx)\<^sup>2 + (ay - by)\<^sup>2) / cfg_link_dist c) * cfg_link_alpha c \<le> cfg_link_alpha c)"
proof -
  let ?d = "sqrt ((ax - bx)\<^sup>2 + (ay - by)\<^sup>2)"
  have eq: "link_line c a b = (if ?d < cfg_link_dist c then [StrokeLine (Fin ax) (Fin ay) (Fin bx) (Fin by)
                    (RGBA (Fin r) (Fin g) (Fin bl) (fade (Fin ?d) (cfg_link_dist c) (cfg_link_alpha c))) (Fin 1)] else [])"
    using assms(1-5) by (simp add: link_line_def Let_def)
  show ?thesis
  proof (cases "?d < cfg_link_dist c")
    case True
    obtain v where v: "fade (Fin ?d) (cfg_link_dist c) (cfg_link_alpha c) = Fin v" "0 < v" "v \<le> cfg_link_alpha c"
      using fade_bounds [OF sqrt_sum_sq_nonneg True assms(6)] by blast
    have md: "0 < cfg_link_dist c" using True sqrt_sum_sq_nonneg [of "ax - bx" "ay - by"] by linarith
    have "v = (1 - ?d / cfg_link_dist c) * cfg_link_alpha c"
      using v(1) md by (simp add: fade_def)
    then show ?thesis using eq v True by simp
  next
    case False
    then show ?thesis using eq by simp
  qed
qed

text \<open>C6: a resize replaces the particle array by a brand-new one built from the random stream only (nothing of the old array is kept), whose length is the clamped density formula max(min, min(max, floor(width * height / k))), hence between min and max.\<close>

theorem resize_regenerates:
  assumes r: "fx_resize c dpr iw ih rnd pos s = (s', cv, pos')" and h: "fx_height c ih = Fin h"
    and k: "cfg_density c \<noteq> 0" and ints: "cfg_min_count c \<in> \<int>" "cfg_max_count c \<in> \<int>"
    and b: "0 \<le> cfg_min_count c" "cfg_min_count c \<le> cfg_max_count c"
      "cfg_max_count c \<le> real max_safe_length"
  shows "fs_particles s' = map (\<lambda>k. new_particle c (Fin (real iw)) (Fin h) rnd (pos + 6 * k))
                               [0..<length (fs_particles s')]
         \<and> real (length (fs_particles s')) =
             max (cfg_min_count c) (min (cfg_max_count c) (of_int \<lfloor>real iw * h / cfg_density c\<rfloor>))
         \<and> cfg_min_count c \<le> real (length (fs_particles s'))
         \<and> real (length (fs_particles s')) \<le> cfg_max_count c
         \<and> pos' = pos + 6 * length (fs_particles s')"
proof -
  define v where "v = max (cfg_min_count c) (min (cfg_max_count c) (of_int \<lfloor>real iw * h / cfg_density c\<rfloor>))"
  have cnt: "fx_count c (Fin (real iw)) (fx_height c ih) = Fin v"
    using fx_count_Fin [OF k] h by (simp add: v_def)
  have vb: "cfg_min_count c \<le> v" "v \<le> cfg_max_count c" using b by (auto simp: v_def)
  have len: "real (js_to_length (Fin v)) = v"
    using js_to_length_int [of v] clamp_int [OF ints] vb b by (simp add: v_def)
  have ps: "fs_particles s' = map (\<lambda>k. new_particle c (Fin (real iw)) (Fin h) rnd (pos + 6 * k))
                               [0..<js_to_length (Fin v)]" and p: "pos' = pos + 6 * js_to_length (Fin v)"
    using r h cnt by (auto simp: fx_resize_def Let_def)
  have lp: "length (fs_particles s') = js_to_length (Fin v)" using ps by simp
  show ?thesis unfolding v_def [symmetric] lp using ps p len vb by simp
qed

text \<open>C7: in every reachable state the window holds only listeners of the live mount, without duplicates, and at most one animation frame is pending, the one whose id is in raf: remounting (as React's strict mode does) never doubles handlers or loops.\<close>

theorem listeners_of_live_mount_only:
  assumes "fx_reachable c rnd s" "cfg_ok c" "\<forall>k. 0 \<le> rnd k \<and> rnd k < 1"
  shows "distinct (sys_listeners s)
         \<and> set (sys_listeners s) \<subseteq> {ResizeListener (sys_gen s), MouseListener (sys_gen s)}
         \<and> length (sys_frames s) \<le> 1
         \<and> (\<forall>(i, g) \<in> set (sys_frames s). i = sys_raf s \<and> g = sys_gen s)"
  using fx_reachable_inv [OF assms] by (auto simp: sys_inv_def split: if_splits)

text \<open>C8: when the canvas or its 2D context is missing at mount, the effect does nothing: no listener, no frame, no change of the field or the canvas, and later frames and resizes have no effect.\<close>

theorem missing_context_is_inert:
  assumes "sys_inv s" "sys_phase s = Unmounted" "\<not> (cv \<and> ctx)"
  shows "sys_phase (fx_event c rnd (Mount cv ctx dpr iw ih) s) = Inert
         \<and> sys_listeners (fx_event c rnd (Mount cv ctx dpr iw ih) s) = []
         \<and> sys_frames (fx_event c rnd (Mount cv ctx dpr iw ih) s) = []
         \<and> sys_field (fx_event c rnd (Mount cv ctx dpr iw ih) s) = sys_field s
         \<and> sys_canvas (fx_event c rnd (Mount cv ctx dpr iw ih) s) = sys_canvas s
         \<and> (\<forall>t. fx_event c rnd (AnimFrame t) (fx_event c rnd (Mount cv ctx dpr iw ih) s)
                = fx_event c rnd (Mount cv ctx dpr iw ih) s)
         \<and> (\<forall>a b. fx_event c rnd (WinResize a b) (fx_event c rnd (Mount cv ctx dpr iw ih) s)
                = fx_event c rnd (Mount cv ctx dpr iw ih) s)"
  using assms by (auto simp: mount_def sys_inv_def Let_def)

text \<open>C9: a pointer at least the attraction radius away leaves the particle's velocity unchanged: the frame is pure inertial motion and wrapping.\<close>

theorem far_pointer_keeps_velocity:
  assumes "p_x p = Fin x" "p_y p = Fin y" "fs_mouse_x s = Fin mx" "fs_mouse_y s = Fin my"
    and "cfg_attract_radius c \<le> sqrt ((mx - x)\<^sup>2 + (my - y)\<^sup>2)"
  shows "update_particle c s p = wrap (fs_width s) (fs_height s) (advance p)
         \<and> p_vx (update_particle c s p) = p_vx p \<and> p_vy (update_particle c s p) = p_vy p"
  using assms attract_far [OF assms(1,2,5)] attract_velocity_frame
  by (simp add: update_particle_def)

text \<open>C10: one frame changes each velocity component of a finite particle not under the pointer by at most the attraction gain; nothing else limits the speed.\<close>

theorem attraction_kick_bounded:
  assumes "p_x p = Fin x" "p_y p = Fin y" "p_vx p = Fin vx" "p_vy p = Fin vy"
    and "fs_mouse_x s = Fin mx" "fs_mouse_y s = Fin my" "(x, y) \<noteq> (mx, my)" "0 \<le> cfg_attract_gain c"
  shows "\<exists>vx' vy'. p_vx (update_particle c s p) = Fin vx' \<and> p_vy (update_particle c s p) = Fin vy'
           \<and> \<bar>vx' - vx\<bar> \<le> cfg_attract_gain c \<and> \<bar>vy' - vy\<bar> \<le> cfg_attract_gain c"
  using attract_kick [OF assms(1-4,7,8)] assms(5,6) attract_velocity_frame
  by (simp add: update_particle_def)

text \<open>C12: for the pixel ratios a browser reports (non-negative, infinite or missing)
  the effect's DPR lies in (0, 2]. The canvas buffer width is what the reflecting setter of
  \<open>canvas.width\<close> keeps of \<open>width * DPR\<close>: the value truncated and taken modulo
  \<open>2^32\<close> when that is at most 2147483647, the default 300 otherwise. On a window of at
  most 1073741823 pixels it is floor(width * DPR), at most twice the window width.\<close>

theorem dpr_and_canvas_buffer:
  assumes "raw = PInf \<or> raw = NaN \<or> (\<exists>r. raw = Fin r \<and> 0 \<le> r)"
    and r: "fx_resize c (fx_dpr raw) iw ih rnd pos s = (s', cv, pos')"
  shows "\<exists>d. fx_dpr raw = Fin d \<and> 0 < d \<and> d \<le> 2
           \<and> unat (cv_width cv) =
               (if nat \<lfloor>real iw * d\<rfloor> mod 2 ^ 32 \<le> 2147483647 then nat \<lfloor>real iw * d\<rfloor> mod 2 ^ 32 else 300)
           \<and> (2 * iw \<le> 2147483647 \<longrightarrow> unat (cv_width cv) = nat \<lfloor>real iw * d\<rfloor> \<and> unat (cv_width cv) \<le> 2 * iw)"
proof -
  obtain d where d: "fx_dpr raw = Fin d" "0 < d" "d \<le> 2"
    using assms(1) by (auto simp: fx_dpr_Fin fx_dpr_NaN fx_dpr_PInf min_def)
  have cw: "unat (cv_width cv) =
      (if nat \<lfloor>real iw * d\<rfloor> mod 2 ^ 32 \<le> 2147483647 then nat \<lfloor>real iw * d\<rfloor> mod 2 ^ 32 else 300)"
    using r d unat_canvas_dim [of "real iw * d" 300] by (auto simp: fx_resize_def Let_def)
  have "real iw * d \<le> real iw * 2" by (rule mult_left_mono) (use d in auto)
  then have "nat \<lfloor>real iw * d\<rfloor> \<le> 2 * iw" by (simp add: nat_le_iff floor_le_iff mult.commute)
  then have "2 * iw \<le> 2147483647 \<longrightarrow> unat (cv_width cv) = nat \<lfloor>real iw * d\<rfloor> \<and> unat (cv_width cv) \<le> 2 * iw"
    using cw by auto
  then show ?thesis using d cw by blast
qed

text \<open>C13: the initial pointer position (-9999, -9999) attracts no particle inside the margin of a canvas up to 9000 pixels and draws no pointer line to it.\<close>

theorem initial_pointer_is_inert:
  assumes "in_margin w (p_x p)" "in_margin h (p_y p)" "w \<le> 9000" "h \<le> 9000"
    and "cfg_pointer_dist c \<le> 9000" "cfg_attract_radius c \<le> 9000"
  shows "pointer_line c (fs_mouse_x field_init) (fs_mouse_y field_init) p = []
         \<and> attract c (fs_mouse_x field_init) (fs_mouse_y field_init) p = p"
proof -
  obtain x y where xy: "p_x p = Fin x" "p_y p = Fin y" "-50 \<le> x" "-50 \<le> y"
    using assms(1,2) by (auto elim!: in_margin.elims)
  have "9000 \<le> \<bar>x - -9999\<bar>" using xy(3) by simp
  then have d1: "9000 \<le> sqrt ((x - -9999)\<^sup>2 + (y - -9999)\<^sup>2)"
    using abs_le_sqrt_sum_sq [of "x - -9999" "y - -9999"] by linarith
  have "(-9999 - x)\<^sup>2 = (x - -9999)\<^sup>2" "(-9999 - y)\<^sup>2 = (y - -9999)\<^sup>2"
    by (rule power2_commute)+
  then have d2: "9000 \<le> sqrt ((-9999 - x)\<^sup>2 + (-9999 - y)\<^sup>2)"
    using d1 by simp
  show ?thesis
    using xy d1 d2 assms(5,6) by (simp add: field_init_def pointer_line_def attract_def Let_def)
qed

section \<open>Navigation across components\<close>

lemma nav_ids_are_page_sections:
  "nav_section_ids = page_section_ids" "footer_link_ids = page_section_ids"
  "nav_item_count = length page_section_ids"
  by (simp_all add: nav_section_ids_def footer_link_ids_def nav_item_count_def page_section_ids_def
      hero_section_id_def about_section_id_def skills_section_id_def projects_section_id_def
      contact_section_id_def)

text \<open>C20: every in-page navigation control names a section that a component renders: the
  k-th button of the Header and the k-th quick link of the Footer find the section of the
  k-th component of the page by its id and scroll to it (the Header also closes its mobile
  menu, the Footer leaves it), and the Hero's two buttons find the About and the Contact
  section.\<close>

theorem in_page_links_reach_sections:
  assumes "k < nav_item_count"
  shows "header_event (HdNav k) s = s\<lparr>hd_scroll_target := Some (page_section_ids ! k), hd_menu_open := False\<rparr>
         \<and> footer_event (FtLink k) s = s\<lparr>hd_scroll_target := Some (page_section_ids ! k)\<rparr>
         \<and> scroll_to_about s = s\<lparr>hd_scroll_target := Some about_section_id\<rparr>
         \<and> scroll_to_contact s = s\<lparr>hd_scroll_target := Some contact_section_id\<rparr>"
proof -
  have k: "page_section_ids ! k \<in> set page_section_ids"
    using assms nav_ids_are_page_sections(3) by simp
  have "about_section_id \<in> set page_section_ids" "contact_section_id \<in> set page_section_ids"
    by (simp_all add: page_section_ids_def)
  then have "scroll_to_about s = s\<lparr>hd_scroll_target := Some about_section_id\<rparr>"
      "scroll_to_contact s = s\<lparr>hd_scroll_target := Some contact_section_id\<rparr>"
    by (simp_all add: scroll_to_about_def scroll_to_contact_def about_section_id_def
        contact_section_id_def scroll_into_view_found)
  then show ?thesis
    using assms k nav_ids_are_page_sections by (simp add: scroll_to_section_found scroll_into_view_found)
qed

theorem in_page_links_reach_sections_witness:
  "4 < nav_item_count
   \<and> hd_scroll_target (header_event (HdNav 4) (header_init\<lparr>hd_menu_open := True\<rparr>)) = Some ''contact''
   \<and> \<not> hd_menu_open (header_event (HdNav 4) (header_init\<lparr>hd_menu_open := True\<rparr>))
   \<and> hd_scroll_target (footer_event (FtLink 2) (header_init\<lparr>hd_menu_open := True\<rparr>)) = Some ''skills''"
  using in_page_links_reach_sections [of 4 "header_init\<lparr>hd_menu_open := True\<rparr>"]
    in_page_links_reach_sections [of 2 "header_init\<lparr>hd_menu_open := True\<rparr>"]
  by (simp add: nav_item_count_def page_section_ids_def contact_section_id_def skills_section_id_def)

section \<open>Witnesses\<close>

lemma half_rnd_range: "\<forall>k. 0 \<le> half_rnd k \<and> half_rnd k < 1"
  by (simp add: half_rnd_def)

lemma hero_mounted_reachable: "fx_reachable hero_config half_rnd hero_mounted"
  by (rule fx_reachable.step [OF fx_reachable.init])

lemma hero_mounted_running: "sys_phase hero_mounted = Running"
  by (simp add: sys_init_def mount_def Let_def request_frame_def run_resize_def split: prod.splits)

lemma sqrt_3_4_5: "sqrt ((100 - 130)\<^sup>2 + (100 - 140)\<^sup>2) = (50::real)"
  by (rule real_sqrt_unique) simp_all

theorem reachable_particles_in_margin_witness:
  "fx_reachable hero_config half_rnd hero_mounted \<and> cfg_ok hero_config
   \<and> (\<forall>k. 0 \<le> half_rnd k \<and> half_rnd k < 1) \<and> sys_phase hero_mounted = Running
   \<and> (\<exists>w h. fs_width (sys_field hero_mounted) = Fin w \<and> fs_height (sys_field hero_mounted) = Fin h
        \<and> 0 \<le> w \<and> 0 \<le> h \<and>
        (\<forall>p \<in> set (fs_particles (sys_field hero_mounted)).
           (in_margin w (p_x p) \<and> in_margin h (p_y p) \<and> is_fin (p_vx p) \<and> is_fin (p_vy p))
           \<or> poisoned p))"
  using reachable_particles_in_margin [OF hero_mounted_reachable fx_configs_ok(2) half_rnd_range
      hero_mounted_running]
    hero_mounted_reachable fx_configs_ok(2) half_rnd_range hero_mounted_running
  by blast

theorem pointer_on_particle_poisons_witness:
  "p_x demo_particle = Fin 100 \<and> p_y demo_particle = Fin 100
   \<and> fs_mouse_x (field_init\<lparr>fs_mouse_x := Fin 100, fs_mouse_y := Fin 100\<rparr>) = Fin 100
   \<and> fs_mouse_y (field_init\<lparr>fs_mouse_x := Fin 100, fs_mouse_y := Fin 100\<rparr>) = Fin 100
   \<and> cfg_ok hero_config
   \<and> poisoned (update_particle hero_config (field_init\<lparr>fs_mouse_x := Fin 100, fs_mouse_y := Fin 100\<rparr>)
        demo_particle)"
proof -
  have h: "p_x demo_particle = Fin 100" "p_y demo_particle = Fin 100"
    "fs_mouse_x (field_init\<lparr>fs_mouse_x := Fin 100, fs_mouse_y := Fin 100\<rparr>) = Fin 100"
    "fs_mouse_y (field_init\<lparr>fs_mouse_x := Fin 100, fs_mouse_y := Fin 100\<rparr>) = Fin 100"
    by (simp_all add: demo_particle_def)
  show ?thesis
    using pointer_on_particle_poisons [OF h fx_configs_ok(2)] h fx_configs_ok(2) by blast
qed

theorem teardown_cancels_everything_witness:
  "fx_reachable hero_config half_rnd hero_mounted \<and> cfg_ok hero_config
   \<and> (\<forall>k. 0 \<le> half_rnd k \<and> half_rnd k < 1)
   \<and> sys_listeners (fx_event hero_config half_rnd Unmount hero_mounted) = []
   \<and> sys_frames (fx_event hero_config half_rnd Unmount hero_mounted) = []"
  using teardown_cancels_everything [OF hero_mounted_reachable fx_configs_ok(2) half_rnd_range, of 0]
    hero_mounted_reachable fx_configs_ok(2) half_rnd_range
  by blast

theorem link_drawn_iff_close_witness:
  "p_x demo_particle = Fin 100 \<and> p_y demo_particle = Fin 100
   \<and> p_x (demo_particle\<lparr>p_x := Fin 130, p_y := Fin 140\<rparr>) = Fin 130
   \<and> p_y (demo_particle\<lparr>p_x := Fin 130, p_y := Fin 140\<rparr>) = Fin 140
   \<and> cfg_link_rgb about_config = (34, 211, 238) \<and> 0 < cfg_link_alpha about_config
   \<and> link_line about_config demo_particle (demo_particle\<lparr>p_x := Fin 130, p_y := Fin 140\<rparr>) \<noteq> []"
proof -
  have h: "p_x demo_particle = Fin 100" "p_y demo_particle = Fin 100"
    "p_x (demo_particle\<lparr>p_x := Fin 130, p_y := Fin 140\<rparr>) = Fin 130"
    "p_y (demo_particle\<lparr>p_x := Fin 130, p_y := Fin 140\<rparr>) = Fin 140"
    "cfg_link_rgb about_config = (34, 211, 238)" "0 < cfg_link_alpha about_config"
    by (simp_all add: demo_particle_def about_config_def)
  have d: "sqrt ((100 - 130)\<^sup>2 + (100 - 140)\<^sup>2) < cfg_link_dist about_config"
    by (simp add: sqrt_3_4_5 about_config_def)
  show ?thesis
    using link_drawn_iff_close [OF h] h d by simp
qed

theorem resize_regenerates_witness:
  "fx_resize hero_config (Fin 1) 800 600 half_rnd 0 field_init =
     (fst (fx_resize hero_config (Fin 1) 800 600 half_rnd 0 field_init),
      fst (snd (fx_resize hero_config (Fin 1) 800 600 half_rnd 0 field_init)),
      snd (snd (fx_resize hero_config (Fin 1) 800 600 half_rnd 0 field_init)))
   \<and> fx_height hero_config 600 = Fin 600 \<and> cfg_density hero_config \<noteq> 0
   \<and> cfg_min_count hero_config \<in> \<int> \<and> cfg_max_count hero_config \<in> \<int>
   \<and> 0 \<le> cfg_min_count hero_config \<and> cfg_min_count hero_config \<le> cfg_max_count hero_config
   \<and> cfg_max_count hero_config \<le> real max_safe_length
   \<and> length (fs_particles (fst (fx_resize hero_config (Fin 1) 800 600 half_rnd 0 field_init))) = 70"
proof -
  have h: "fx_resize hero_config (Fin 1) 800 600 half_rnd 0 field_init =
     (fst (fx_resize hero_config (Fin 1) 800 600 half_rnd 0 field_init),
      fst (snd (fx_resize hero_config (Fin 1) 800 600 half_rnd 0 field_init)),
      snd (snd (fx_resize hero_config (Fin 1) 800 600 half_rnd 0 field_init)))"
    "fx_height hero_config 600 = Fin 600" "cfg_density hero_config \<noteq> 0"
    "cfg_min_count hero_config \<in> \<int>" "cfg_max_count hero_config \<in> \<int>"
    "0 \<le> cfg_min_count hero_config" "cfg_min_count hero_config \<le> cfg_max_count hero_config"
    "cfg_max_count hero_config \<le> real max_safe_length"
    by (simp_all add: fx_height_def hero_config_def max_safe_length_def)
  have "real (length (fs_particles (fst (fx_resize hero_config (Fin 1) 800 600 half_rnd 0 field_init))))
        = max (cfg_min_count hero_config) (min (cfg_max_count hero_config)
            (of_int \<lfloor>real 800 * 600 / cfg_density hero_config\<rfloor>))"
    using resize_regenerates [OF h] by blast
  then have "real (length (fs_particles (fst (fx_resize hero_config (Fin 1) 800 600 half_rnd 0 field_init)))) = 70"
    by (simp add: hero_config_def)
  then show ?thesis using h by linarith
qed

theorem listeners_of_live_mount_only_witness:
  "fx_reachable hero_config half_rnd hero_mounted \<and> cfg_ok hero_config
   \<and> (\<forall>k. 0 \<le> half_rnd k \<and> half_rnd k < 1)
   \<and> distinct (sys_listeners hero_mounted) \<and> length (sys_frames hero_mounted) \<le> 1"
  using listeners_of_live_mount_only [OF hero_mounted_reachable fx_configs_ok(2) half_rnd_range]
    hero_mounted_reachable fx_configs_ok(2) half_rnd_range
  by blast

theorem missing_context_is_inert_witness:
  "sys_inv sys_init \<and> sys_phase sys_init = Unmounted \<and> \<not> (False \<and> True)
   \<and> sys_phase (fx_event hero_config half_rnd (Mount False True (Fin 1) 800 600) sys_init) = Inert
   \<and> sys_listeners (fx_event hero_config half_rnd (Mount False True (Fin 1) 800 600) sys_init) = []"
proof -
  have h: "sys_inv sys_init" "sys_phase sys_init = Unmounted" "\<not> (False \<and> True)"
    by (simp_all add: sys_inv_init) (simp add: sys_init_def)
  show ?thesis
    using missing_context_is_inert [OF h, of hero_config half_rnd "Fin 1" 800 600] h by blast
qed

theorem far_pointer_keeps_velocity_witness:
  "p_x demo_particle = Fin 100 \<and> p_y demo_particle = Fin 100
   \<and> fs_mouse_x (field_init\<lparr>fs_mouse_x := Fin 400, fs_mouse_y := Fin 500\<rparr>) = Fin 400
   \<and> fs_mouse_y (field_init\<lparr>fs_mouse_x := Fin 400, fs_mouse_y := Fin 500\<rparr>) = Fin 500
   \<and> cfg_attract_radius hero_config \<le> sqrt ((400 - 100)\<^sup>2 + (500 - 100)\<^sup>2)
   \<and> p_vx (update_particle hero_config (field_init\<lparr>fs_mouse_x := Fin 400, fs_mouse_y := Fin 500\<rparr>)
        demo_particle) = Fin 0.1"
proof -
  have sq: "sqrt ((400 - 100)\<^sup>2 + (500 - 100)\<^sup>2) = (500::real)"
    by (rule real_sqrt_unique) simp_all
  have h: "p_x demo_particle = Fin 100" "p_y demo_particle = Fin 100"
    "fs_mouse_x (field_init\<lparr>fs_mouse_x := Fin 400, fs_mouse_y := Fin 500\<rparr>) = Fin 400"
    "fs_mouse_y (field_init\<lparr>fs_mouse_x := Fin 400, fs_mouse_y := Fin 500\<rparr>) = Fin 500"
    "cfg_attract_radius hero_config \<le> sqrt ((400 - 100)\<^sup>2 + (500 - 100)\<^sup>2)"
    by (simp_all add: demo_particle_def hero_config_def sq)
  have vx: "p_vx demo_particle = Fin 0.1" by (simp add: demo_particle_def)
  have c: "p_vx (update_particle hero_config (field_init\<lparr>fs_mouse_x := Fin 400, fs_mouse_y := Fin 500\<rparr>)
        demo_particle) = p_vx demo_particle"
    using far_pointer_keeps_velocity [OF h] by blast
  show ?thesis
    using h trans [OF c vx] by blast
qed

theorem attraction_kick_bounded_witness:
  "p_x demo_particle = Fin 100 \<and> p_y demo_particle = Fin 100
   \<and> p_vx demo_particle = Fin 0.1 \<and> p_vy demo_particle = Fin 0
   \<and> fs_mouse_x (field_init\<lparr>fs_mouse_x := Fin 130, fs_mouse_y := Fin 140\<rparr>) = Fin 130
   \<and> fs_mouse_y (field_init\<lparr>fs_mouse_x := Fin 130, fs_mouse_y := Fin 140\<rparr>) = Fin 140
   \<and> ((100::real), (100::real)) \<noteq> (130, 140) \<and> 0 \<le> cfg_attract_gain hero_config
   \<and> (\<exists>vx' vy'. p_vx (update_particle hero_config (field_init\<lparr>fs_mouse_x := Fin 130, fs_mouse_y := Fin 140\<rparr>)
          demo_particle) = Fin vx' \<and> \<bar>vx' - 0.1\<bar> \<le> cfg_attract_gain hero_config)"
proof -
  have h: "p_x demo_particle = Fin 100" "p_y demo_particle = Fin 100"
    "p_vx demo_particle = Fin 0.1" "p_vy demo_particle = Fin 0"
    "fs_mouse_x (field_init\<lparr>fs_mouse_x := Fin 130, fs_mouse_y := Fin 140\<rparr>) = Fin 130"
    "fs_mouse_y (field_init\<lparr>fs_mouse_x := Fin 130, fs_mouse_y := Fin 140\<rparr>) = Fin 140"
    "((100::real), (100::real)) \<noteq> (130, 140)" "0 \<le> cfg_attract_gain hero_config"
    by (simp_all add: demo_particle_def hero_config_def)
  show ?thesis
    using attraction_kick_bounded [OF h] h by blast
qed

theorem fill_color_bounds_witness:
  "cfg_fill hero_config = CyanTealFill 800 \<and> (800::real) \<noteq> 0 \<and> cfg_twinkle_period hero_config \<noteq> 0
   \<and> p_seed demo_particle = Fin 0 \<and> 0 \<le> cfg_alpha_base hero_config
   \<and> (\<exists>r g b a. fill_color hero_config (Fin 0) demo_particle = RGBA (Fin r) (Fin g) (Fin b) (Fin a)
        \<and> 34 \<le> r \<and> r \<le> 220 \<and> (r, g, b) \<noteq> (45, 212, 191))
   \<and> (\<exists>a. fill_color hero_config (Fin (800 * (pi / 2))) demo_particle = RGBA (Fin 220) (Fin 184) (Fin 166) (Fin a))"
proof -
  have h: "cfg_fill hero_config = CyanTealFill 800" "(800::real) \<noteq> 0"
    "cfg_twinkle_period hero_config \<noteq> 0" "p_seed demo_particle = Fin 0"
    "0 \<le> cfg_alpha_base hero_config"
    by (simp_all add: hero_config_def demo_particle_def)
  have "(\<exists>r g b a. fill_color hero_config (Fin 0) demo_particle = RGBA (Fin r) (Fin g) (Fin b) (Fin a)
           \<and> 34 \<le> r \<and> r \<le> 220 \<and> (r, g, b) \<noteq> (45, 212, 191))
        \<and> (\<exists>a. fill_color hero_config (Fin (800 * (pi / 2 - 0 * 2))) demo_particle
                 = RGBA (Fin 220) (Fin 184) (Fin 166) (Fin a))"
    using Particle_Field.fill_color_bounds [OF h, of 0] by blast
  then show ?thesis using h by simp
qed

theorem dpr_and_canvas_buffer_witness:
  "(Fin 1 = PInf \<or> Fin 1 = NaN \<or> (\<exists>r. Fin 1 = Fin r \<and> 0 \<le> r))
   \<and> fx_resize hero_config (fx_dpr (Fin 1)) 800 600 half_rnd 0 field_init =
     (fst (fx_resize hero_config (fx_dpr (Fin 1)) 800 600 half_rnd 0 field_init), fst (snd (fx_resize hero_config (fx_dpr (Fin 1)) 800 600 half_rnd 0 field_init)), snd (snd (fx_resize hero_config (fx_dpr (Fin 1)) 800 600 half_rnd 0 field_init)))
   \<and> unat (cv_width (fst (snd (fx_resize hero_config (fx_dpr (Fin 1)) 800 600 half_rnd 0 field_init)))) = 800
   \<and> fx_resize hero_config (fx_dpr (Fin 2)) 1500000000 600 half_rnd 0 field_init =
     (fst (fx_resize hero_config (fx_dpr (Fin 2)) 1500000000 600 half_rnd 0 field_init), fst (snd (fx_resize hero_config (fx_dpr (Fin 2)) 1500000000 600 half_rnd 0 field_init)), snd (snd (fx_resize hero_config (fx_dpr (Fin 2)) 1500000000 600 half_rnd 0 field_init)))
   \<and> unat (cv_width (fst (snd (fx_resize hero_config (fx_dpr (Fin 2)) 1500000000 600 half_rnd 0 field_init)))) = 300"
proof -
  have h: "Fin 1 = PInf \<or> Fin 1 = NaN \<or> (\<exists>r. Fin 1 = Fin r \<and> 0 \<le> r)"
    "Fin 2 = PInf \<or> Fin 2 = NaN \<or> (\<exists>r. Fin 2 = Fin r \<and> 0 \<le> r)"
    "fx_resize hero_config (fx_dpr (Fin 1)) 800 600 half_rnd 0 field_init = (fst (fx_resize hero_config (fx_dpr (Fin 1)) 800 600 half_rnd 0 field_init), fst (snd (fx_resize hero_config (fx_dpr (Fin 1)) 800 600 half_rnd 0 field_init)), snd (snd (fx_resize hero_config (fx_dpr (Fin 1)) 800 600 half_rnd 0 field_init)))"
    "fx_resize hero_config (fx_dpr (Fin 2)) 1500000000 600 half_rnd 0 field_init = (fst (fx_resize hero_config (fx_dpr (Fin 2)) 1500000000 600 half_rnd 0 field_init), fst (snd (fx_resize hero_config (fx_dpr (Fin 2)) 1500000000 600 half_rnd 0 field_init)), snd (snd (fx_resize hero_config (fx_dpr (Fin 2)) 1500000000 600 half_rnd 0 field_init)))"
    by simp_all
  have "unat (cv_width (fst (snd (fx_resize hero_config (fx_dpr (Fin 1)) 800 600 half_rnd 0 field_init)))) = 800"
    using dpr_and_canvas_buffer [OF h(1) h(3)] by (auto simp: fx_dpr_Fin)
  moreover have "unat (cv_width (fst (snd (fx_resize hero_config (fx_dpr (Fin 2)) 1500000000 600 half_rnd 0 field_init)))) = 300"
    using dpr_and_canvas_buffer [OF h(2) h(4)] by (auto simp: fx_dpr_Fin)
  ultimately show ?thesis using h by blast
qed

theorem initial_pointer_is_inert_witness:
  "in_margin 800 (p_x demo_particle) \<and> in_margin 600 (p_y demo_particle)
   \<and> (800::real) \<le> 9000 \<and> (600::real) \<le> 9000
   \<and> cfg_pointer_dist about_config \<le> 9000 \<and> cfg_attract_radius about_config \<le> 9000
   \<and> pointer_line about_config (fs_mouse_x field_init) (fs_mouse_y field_init) demo_particle = []"
proof -
  have h: "in_margin 800 (p_x demo_particle)" "in_margin 600 (p_y demo_particle)"
    "(800::real) \<le> 9000" "(600::real) \<le> 9000"
    "cfg_pointer_dist about_config \<le> 9000" "cfg_attract_radius about_config \<le> 9000"
    by (simp_all add: demo_particle_def about_config_def)
  show ?thesis
    using initial_pointer_is_inert [OF h] h by blast
qed

end
